theory Spec2Isabelle
  imports Main "HOL-Library.Sublist"
begin

section \<open>The idaes-docker script\<close>

text \<open>
  The Bash script that wraps the Docker command line is embedded as a function on an
  explicit state. Everything the script cannot decide by itself (which tools are
  installed, what the user types, whether a download succeeds) is read from a
  \<open>host\<close> record; what the script changes (files, the Docker image store, what it
  prints and which commands it runs) lives in a \<open>state\<close> record. \<open>exit\<close> is an
  outcome of its own, so that a function which exits stops the whole script.
\<close>

datatype event = Print string | Run string | ReadLine string

datatype outcome = Exit nat | Return nat

record host =
  wget_present :: bool
  curl_present :: bool
  download_status :: nat
  load_status :: nat
  loaded_images :: "(string \<times> string) list"
  response :: string
  version :: string
  built_id :: "string option"
  run_status :: nat

record state =
  files :: "string set"
  images :: "string \<rightharpoonup> string"
  trace :: "event list"

definition emit :: "event \<Rightarrow> state \<Rightarrow> state" where
  "emit e s = s\<lparr>trace := trace s @ [e]\<rparr>"

definition emits :: "event list \<Rightarrow> state \<Rightarrow> state" where
  "emits es s = s\<lparr>trace := trace s @ es\<rparr>"

text \<open>Sequencing: a step that exits ends the script, a step that returns hands its
  status (the shell's \<open>$?\<close>) to the rest.\<close>

definition and_then ::
  "outcome \<times> state \<Rightarrow> (nat \<Rightarrow> state \<Rightarrow> outcome \<times> state) \<Rightarrow> outcome \<times> state" where
  "and_then r k = (case r of (Exit c, s) \<Rightarrow> (Exit c, s) | (Return st, s) \<Rightarrow> k st s)"

definition usage_text :: "string list" where
  "usage_text =
    [''./idaes-docker COMMAND\<newline>\<newline>'',
     ''User commands:\<newline>'',
     ''   help          Print this message\<newline>'',
     ''   test          Run the unit tests on the Docker image.\<newline>'',
     ''   notebook      Run a Jupyter notebook inside the Docker image.\<newline>'',
     ''   update        Get the latest version of the IDAES Docker image.\<newline>'',
     ''Developer commands:\<newline>'',
     ''   create         Build new Docker image (creates a .tgz file)\<newline>'']"

definition usage :: "state \<Rightarrow> outcome \<times> state" where
  "usage s = (Exit 1, emits (map Print usage_text) s)"

definition IMAGE_REPO :: string where
  "IMAGE_REPO = ''idaes''"

definition IMAGE_TAG :: string where
  "IMAGE_TAG = ''idaes_pse''"

text \<open>\<open>docker images -q REF\<close> prints the id of the image stored under the reference,
  one line for each match: nothing when there is none.\<close>

definition docker_images_q :: "state \<Rightarrow> string \<Rightarrow> string list" where
  "docker_images_q s ref = (case images s ref of None \<Rightarrow> [] | Some i \<Rightarrow> [i])"

text \<open>Command substitution joins the lines of the output (there is at most one here).\<close>

definition captured :: "string list \<Rightarrow> string" where
  "captured ls = (case ls of [] \<Rightarrow> [] | l # _ \<Rightarrow> l)"

definition install_image_help :: "state \<Rightarrow> outcome \<times> state" where
  "install_image_help s =
    (Return 0, emits
      [Print ''Command aborted.\<newline>\<newline>For information on how to install and use\<newline>'',
       Print ''Docker with the IDAES PSE framework, see the installation guide at:\<newline>'',
       Print ''    https://idaes-pse.readthedocs.io/en/latest/install.html\<newline>''] s)"

text \<open>The download: \<open>wget URL\<close> or \<open>curl -o FILE URL\<close>. When the command succeeds the
  archive is in the working directory; its exit status is the host's.\<close>

definition download :: "host \<Rightarrow> string \<Rightarrow> state \<Rightarrow> outcome \<times> state" where
  "download h cmdline s =
    (let s1 = emit (Run cmdline) s
     in (Return (download_status h),
         if download_status h = 0
         then s1\<lparr>files := insert ''idaes-pse-docker-latest.tgz'' (files s1)\<rparr>
         else s1))"

text \<open>\<open>docker load < FILE\<close> adds the images of the archive to the store when it
  succeeds.\<close>

definition docker_load :: "host \<Rightarrow> string \<Rightarrow> state \<Rightarrow> outcome \<times> state" where
  "docker_load h filenm s =
    (let s1 = emit (Run (''docker load < '' @ filenm)) s
     in (Return (load_status h),
         if load_status h = 0
         then s1\<lparr>images := images s1 ++ map_of (loaded_images h)\<rparr>
         else s1))"

definition install_image :: "host \<Rightarrow> state \<Rightarrow> outcome \<times> state" where
  "install_image h s =
    (let url = ''https://s3.amazonaws.com/idaes/idaes-pse'';
         filenm = ''idaes-pse-docker-latest.tgz'';
         s1 = emit (Run ''wget -h > /dev/null 2>&1'') s;
         found =
           (if wget_present h then (Return 0, ''wget'', s1)
            else
              let s2 = emit (Run ''curl -h > /dev/null 2>&1'') s1
              in if curl_present h then (Return 0, ''curl -o '' @ filenm, s2)
                 else (Exit 1, [],
                       emit (Print ''Could not find 'curl' or 'wget' command. Abort.\<newline>'') s2))
     in case found of
          (Exit c, _, s3) \<Rightarrow> (Exit c, s3)
        | (Return _, getcmd, s3) \<Rightarrow>
            and_then (download h (getcmd @ '' '' @ url @ ''/'' @ filenm)
                        (emit (Print ''Downloading image..\<newline>'') s3))
              (\<lambda>st s4.
                 if st \<noteq> 0
                 then (Exit 1, emit (Print ''Download failed. Abort command.\<newline>'') s4)
                 else docker_load h filenm (emit (Print ''Loading image..\<newline>'') s4)))"

definition check_image :: "host \<Rightarrow> state \<Rightarrow> outcome \<times> state" where
  "check_image h s =
    (let ref = IMAGE_REPO @ '':'' @ IMAGE_TAG;
         n = length (docker_images_q s ref);
         s1 = emit (Run (''docker images -q '' @ ref @ '' | wc -l'')) s
     in if n = 0
        then
          let s2 = emit (Print (''Docker image '' @ ref @ '' not found\<newline>'')) s1;
              s3 = emit (Print ''Download and install latest image now (y/N)? '') s2;
              s4 = emit (ReadLine (response h)) s3
          in if response h \<in> {''y'', ''Y'', ''yes'', ''Yes'', ''YES''}
             then install_image h s4
             else and_then (install_image_help s4) (\<lambda>_ s5. (Exit 1, s5))
        else (Return 0, s1))"

text \<open>The loop \<open>while [[ $# -gt 0 ]]\<close> of \<open>build_image\<close>: one more \<open>-t\<close> option for each
  tag the caller gave.\<close>

primrec tag_loop :: "string \<Rightarrow> string list \<Rightarrow> string" where
  "tag_loop tagopt [] = tagopt"
| "tag_loop tagopt (a # as) =
     tag_loop (tagopt @ '' -t '' @ IMAGE_REPO @ ''/'' @ IMAGE_TAG @ '':'' @ a) as"

definition python_version_cmd :: string where
  \<open>python_version_cmd =
     ''python -c "from idaes import ver; print(ver.__version__, end='' @
     [CHR 0x27, CHR 0x27] @ '')"''\<close>

text \<open>\<open>docker build . -t T1 -t T2 ...\<close>: when the build succeeds every tag names the new
  image. The script never looks at the exit status.\<close>

definition docker_build :: "host \<Rightarrow> string \<Rightarrow> string list \<Rightarrow> state \<Rightarrow> state" where
  "docker_build h tagopt tags s =
    (let s1 = emit (Run (''docker build . '' @ tagopt)) s
     in case built_id h of
          None \<Rightarrow> s1
        | Some i \<Rightarrow> s1\<lparr>images := (\<lambda>r. if r \<in> set tags then Some i else images s1 r)\<rparr>)"

text \<open>\<open>docker save ID | gzip -c > FILE\<close>: the redirection creates the file whatever
  the two commands do.\<close>

definition docker_save :: "string \<Rightarrow> string \<Rightarrow> state \<Rightarrow> state" where
  "docker_save imgid imgname s =
    (let s1 = emit (Run (''docker save '' @ imgid @ '' | gzip -c >  '' @ imgname)) s
     in s1\<lparr>files := insert imgname (files s1)\<rparr>)"

definition build_image :: "host \<Rightarrow> string list \<Rightarrow> state \<Rightarrow> outcome \<times> state" where
  "build_image h args s =
    (let ver = version h;
         s1 = emit (Run python_version_cmd) s;
         s2 = emit (Print (''Detected IDAES package version '' @ ver @ ''\<newline>'')) s1;
         vertag = IMAGE_REPO @ ''/'' @ IMAGE_TAG @ '':v'' @ ver;
         tagopt = tag_loop (''-t '' @ vertag) args;
         tags = vertag # map (\<lambda>a. IMAGE_REPO @ ''/'' @ IMAGE_TAG @ '':'' @ a) args;
         imgname = ''idaes-pse-docker-'' @ ver @ ''.tgz''
     in if imgname \<notin> files s2
        then
          let imgid = captured (docker_images_q s2 vertag);
              s3 = emit (Run (''docker images -q '' @ vertag)) s2;
              built =
                (if imgid = []
                 then
                   let s4 = docker_build h tagopt tags
                              (emit (Print ''Building image...\<newline>'') s3)
                   in (captured (docker_images_q s4 vertag),
                       emit (Run (''docker images -q '' @ vertag)) s4)
                 else
                   (imgid,
                    emit (Print (''Nothing to do: image '' @ vertag @ '' already exists ('' @
                                 imgid @ '')\<newline>'')) s3));
              s5 = emit (Print ''Saving image..\<newline>'') (snd built);
              s6 = docker_save (fst built) imgname s5
          in (Return 0, emit (Print (''Done: '' @ imgname @ '' \<newline>'')) s6)
        else
          (Return 0,
           emit (Print (''Nothing to do: image file '' @ imgname @ '' already exists\<newline>'')) s2))"

text \<open>\<open>docker run ...\<close> in the foreground; its exit status is the host's.\<close>

definition docker_run :: "host \<Rightarrow> string \<Rightarrow> state \<Rightarrow> outcome \<times> state" where
  "docker_run h cmdline s = (Return (run_status h), emit (Run cmdline) s)"

text \<open>The unquoted \<open>$*\<close> of \<open>build_image $*\<close>: every remaining argument is split at
  blanks, tabs and newlines (pathname expansion is left out).\<close>

fun field_split :: "string \<Rightarrow> string \<Rightarrow> string list" where
  "field_split w [] = (if w = [] then [] else [w])"
| "field_split w (c # cs) =
     (if c \<in> {CHR '' '', CHR 0x09, CHR 0x0A}
      then (if w = [] then [] else [w]) @ field_split [] cs
      else field_split (w @ [c]) cs)"

definition first_arg :: "string list \<Rightarrow> string" where
  "first_arg args = (case args of [] \<Rightarrow> [] | a # _ \<Rightarrow> a)"

text \<open>The body of the script: the test for a missing command, then the \<open>case\<close>.\<close>

definition idaes_docker :: "host \<Rightarrow> string list \<Rightarrow> state \<Rightarrow> outcome \<times> state" where
  \<open>idaes_docker h args s =
    and_then (if first_arg args = [] then usage s else (Return 0, s))
      (\<lambda>_ s0.
         if first_arg args = ''test'' then
           and_then (check_image h s0)
             (\<lambda>_ s1. docker_run h
                ''docker run -it idaes/idaes_jupyterhub /bin/bash -c "cd /home/idaes && pytest"''
                (emit (Print ''Running tests in container...\<newline>'') s1))
         else if first_arg args = ''notebook'' then
           and_then (check_image h s0)
             (\<lambda>_ s1. docker_run h ''docker run -p 8888:8888 -it idaes/idaes_jupyterhub''
                (emit (Print ''Starting Jupyter...\<newline>'') s1))
         else if first_arg args = ''update'' then
           install_image h (emit (Print ''Updating IDAES image...\<newline>'') s0)
         else if first_arg args = ''create'' then
           build_image h (concat (map (field_split []) (tl args)))
             (emit (Print ''Create new Docker image file\<newline>'') s0)
         else if first_arg args = ''-h'' \<or> first_arg args = ''help'' then usage s0
         else usage s0)\<close>

text \<open>
  The version reported by Python and the tags given to \<open>create\<close> are taken to be plain
  words (no blanks, no pattern characters, no \<open>%\<close>), as version strings and tags are: the
  unquoted expansions of \<open>$vertag\<close>, \<open>$imgid\<close> and \<open>$imgname\<close> then stay one word each
  and \<open>printf\<close> prints them as they are.
\<close>

text \<open>What a call added to the trace, and the runs that never print the first line of
  the usage message.\<close>

definition new_events :: "state \<Rightarrow> state \<Rightarrow> event list" where
  "new_events s s' = drop (length (trace s)) (trace s')"

definition usage_head :: event where
  "usage_head = Print ''./idaes-docker COMMAND\<newline>\<newline>''"

definition quiet :: "state \<Rightarrow> state \<Rightarrow> bool" where
  "quiet s s' \<longleftrightarrow> (\<exists>evs. trace s' = trace s @ evs \<and> usage_head \<notin> set evs)"

definition docker_load_cmd :: string where
  "docker_load_cmd = ''docker load < idaes-pse-docker-latest.tgz''"

text \<open>Concrete hosts and states on which the theorems below are exercised.\<close>

definition host_bad_network :: host where
  "host_bad_network =
    \<lparr>wget_present = True, curl_present = False, download_status = 4, load_status = 0,
     loaded_images = [], response = ''y'', version = ''1.0'', built_id = Some ''0f3a9c'',
     run_status = 0\<rparr>"

definition state_empty :: state where
  "state_empty = \<lparr>files = {}, images = Map.empty, trace = []\<rparr>"

definition state_archived :: state where
  "state_archived = \<lparr>files = {''idaes-pse-docker-1.0.tgz''}, images = Map.empty, trace = []\<rparr>"

definition state_imaged :: state where
  "state_imaged =
    \<lparr>files = {}, images = [''idaes/idaes_pse:v1.0'' \<mapsto> ''0f3a9c''], trace = []\<rparr>"

section \<open>The solver-interface Makefile\<close>

text \<open>
  The Makefile of the \<open>cubic_roots\<close> library and the \<open>Makefile.in\<close> it includes.
\<close>

subsection \<open>Variables and their expansion\<close>

text \<open>
  Every variable of the two makefiles is set with \<open>=\<close>: its value is kept as written
  and expanded each time it is used. An environment variable is a make variable of the
  same kind, so references inside its value are expanded too. A text is read into
  characters and references: \<open>$$\<close> is a dollar sign, \<open>$(NAME)\<close> and \<open>${NAME}\<close> refer to a
  variable whose name is made of letters, digits and underscores. Function calls,
  one-letter references and a dollar sign at the end are not read (\<open>None\<close>).
\<close>

type_synonym environ = "string \<rightharpoonup> string"

type_synonym vartab = "string \<rightharpoonup> string"

definition getenv :: "environ \<Rightarrow> string \<Rightarrow> string" where
  "getenv env v = (case env v of None \<Rightarrow> [] | Some x \<Rightarrow> x)"

definition name_char :: "char \<Rightarrow> bool" where
  "name_char c \<longleftrightarrow>
     c \<in> set ''ABCDEFGHIJKLMNOPQRSTUVWXYZabcdefghijklmnopqrstuvwxyz0123456789_''"

datatype token = Lit char | Ref string

datatype scan_mode = In_text | After_dollar | In_name char string

fun scan :: "scan_mode \<Rightarrow> string \<Rightarrow> token list option" where
  "scan In_text [] = Some []"
| "scan After_dollar [] = None"
| "scan (In_name cl acc) [] = None"
| "scan In_text (c # cs) =
     (if c = CHR ''$'' then scan After_dollar cs
      else map_option ((#) (Lit c)) (scan In_text cs))"
| "scan After_dollar (c # cs) =
     (if c = CHR ''$'' then map_option ((#) (Lit c)) (scan In_text cs)
      else if c = CHR ''('' then scan (In_name (CHR '')'') []) cs
      else if c = CHR ''{'' then scan (In_name (CHR ''}'') []) cs
      else None)"
| "scan (In_name cl acc) (c # cs) =
     (if c = cl then (if acc = [] then None else map_option ((#) (Ref acc)) (scan In_text cs))
      else if name_char c then scan (In_name cl (acc @ [c])) cs
      else None)"

primrec substitute :: "(string \<Rightarrow> string option) \<Rightarrow> token list \<Rightarrow> string option" where
  "substitute f [] = Some []"
| "substitute f (t # ts) =
     (case t of
        Lit c \<Rightarrow> map_option ((#) c) (substitute f ts)
      | Ref n \<Rightarrow>
          (case f n of None \<Rightarrow> None | Some v \<Rightarrow> map_option ((@) v) (substitute f ts)))"

text \<open>
  The value of a name as written. A variable the makefiles set has the value they give
  it, whatever the environment says. \<open>ASL_BUILD\<close> and \<open>BOOST_HEADER\<close>, the two names
  the makefiles read, come from the environment and are empty when it does not have
  them. Any other name may be one of make's own variables: the model gives no value for
  it (\<open>None\<close>).
\<close>

definition raw_value :: "environ \<Rightarrow> vartab \<Rightarrow> string \<Rightarrow> string option" where
  "raw_value env vt name =
    (case vt name of
       Some raw \<Rightarrow> Some raw
     | None \<Rightarrow>
         if name = ''ASL_BUILD'' \<or> name = ''BOOST_HEADER'' then Some (getenv env name)
         else None)"

text \<open>Expansion, to a bounded depth of nested references. \<open>None\<close> stands for an
  expansion that fails (a variable that refers to itself), that is deeper than the bound,
  or that meets something the model does not read.\<close>

primrec expand :: "nat \<Rightarrow> environ \<Rightarrow> vartab \<Rightarrow> string \<Rightarrow> string option" where
  "expand 0 env vt s = None"
| "expand (Suc n) env vt s =
     (case scan In_text s of
        None \<Rightarrow> None
      | Some ts \<Rightarrow>
          substitute
            (\<lambda>name. case raw_value env vt name of
                       None \<Rightarrow> None
                     | Some raw \<Rightarrow> expand n env vt raw) ts)"

text \<open>The variables of \<open>Makefile.in\<close>, which the Makefile includes on its first line.\<close>

definition Makefile_in :: vartab where
  "Makefile_in =
    [''ASL'' \<mapsto> ''$(ASL_BUILD)'',
     ''BOOST'' \<mapsto> ''$(BOOST_HEADER)'',
     ''CC'' \<mapsto> ''gcc'',
     ''CXX'' \<mapsto> ''g++'',
     ''RM'' \<mapsto> ''rm'',
     ''CP'' \<mapsto> ''cp'']"

text \<open>Reading the Makefile: \<open>ifeq ($(ASL),)\<close> is decided when the file is read, with
  the variables set so far; then \<open>LDFLAGS\<close> is set.\<close>

definition variables :: "nat \<Rightarrow> environ \<Rightarrow> vartab option" where
  "variables n env =
    (case expand n env Makefile_in ''$(ASL)'' of
       None \<Rightarrow> None
     | Some a \<Rightarrow>
         Some (Makefile_in
           (''CFLAGS'' \<mapsto> (if a = [] then ''-Wall -Wextra -O3''
                              else ''-Wall -Wextra -O3 -I$(ASL)''),
            ''LDFLAGS'' \<mapsto> ''-shared -lm'')))"

definition in_makefile :: "nat \<Rightarrow> environ \<Rightarrow> string \<Rightarrow> string option" where
  "in_makefile n env s =
    (case variables n env of None \<Rightarrow> None | Some vt \<Rightarrow> expand n env vt s)"

definition ASL :: "nat \<Rightarrow> environ \<Rightarrow> string option" where
  "ASL n env = in_makefile n env ''$(ASL)''"

definition BOOST :: "nat \<Rightarrow> environ \<Rightarrow> string option" where
  "BOOST n env = in_makefile n env ''$(BOOST)''"

definition CFLAGS :: "nat \<Rightarrow> environ \<Rightarrow> string option" where
  "CFLAGS n env = in_makefile n env ''$(CFLAGS)''"

definition LDFLAGS :: "nat \<Rightarrow> environ \<Rightarrow> string option" where
  "LDFLAGS n env = in_makefile n env ''$(LDFLAGS)''"

definition flags_contain :: "string \<Rightarrow> nat \<Rightarrow> environ \<Rightarrow> bool" where
  "flags_contain x n env = (case CFLAGS n env of None \<Rightarrow> False | Some fl \<Rightarrow> sublist x fl)"

subsection \<open>Rules\<close>

text \<open>A file system for make: the modification time of every file that exists. A rule
  has its target, its prerequisites, the lines of its recipe as written and what the
  recipe, when all its lines succeed, does to the files at the time it ends.\<close>

type_synonym filesys = "string \<rightharpoonup> nat"

record rule =
  target :: string
  prereqs :: "string list"
  recipe :: "string list"
  effect :: "filesys \<Rightarrow> nat \<Rightarrow> filesys"

definition compile_line :: string where
  "compile_line = ''$(CC) -c $(CFLAGS) -fPIC cubic_roots.c -o cubic_roots.o''"

definition link_line :: string where
  "link_line = ''$(CC) $(LDFLAGS) cubic_roots.o -o cubic_roots.so''"

definition rule_ALL :: rule where
  "rule_ALL =
    \<lparr>target = ''ALL'', prereqs = [''cubic_roots.so''], recipe = [],
     effect = (\<lambda>fs now. fs)\<rparr>"

definition rule_o :: rule where
  "rule_o =
    \<lparr>target = ''cubic_roots.o'', prereqs = [''cubic_roots.c''],
     recipe = [compile_line],
     effect = (\<lambda>fs now. fs(''cubic_roots.o'' \<mapsto> now))\<rparr>"

definition rule_so :: rule where
  "rule_so =
    \<lparr>target = ''cubic_roots.so'', prereqs = [''cubic_roots.o''],
     recipe = [link_line],
     effect = (\<lambda>fs now. fs(''cubic_roots.so'' \<mapsto> now))\<rparr>"

definition rule_clean :: rule where
  "rule_clean =
    \<lparr>target = ''clean'', prereqs = [],
     recipe = [''rm -f *.o'', ''rm -f *.so''],
     effect = (\<lambda>fs now f. if suffix ''.o'' f \<or> suffix ''.so'' f then None else fs f)\<rparr>"

definition makefile :: "rule list" where
  "makefile = [rule_ALL, rule_o, rule_so, rule_clean]"

text \<open>The commands the two recipes become once their variables are expanded.\<close>

definition compile_cmd :: "nat \<Rightarrow> environ \<Rightarrow> string option" where
  "compile_cmd n env = in_makefile n env compile_line"

definition link_cmd :: "nat \<Rightarrow> environ \<Rightarrow> string option" where
  "link_cmd n env = in_makefile n env link_line"

subsection \<open>What make does with the rules\<close>

text \<open>
  A target is brought up to date after its prerequisites; its recipe runs when the
  target does not exist or a prerequisite does not exist or is newer. Each line of a
  recipe is expanded when it is about to run; the recipe stops at the first line that
  fails, and make stops with it. A name with no rule must be an existing file.

  Besides the rules of the makefile, make has built-in rules, which it searches for a
  target that has no recipe of its own: they can build a program from a source file of
  the same name, a C file from a grammar, a file from its version-control archive. Which
  of them applies in a directory is a parameter \<open>builtin\<close>; where one applies, the model
  says so (\<open>Builtin_rule\<close>) and does not follow make further. Before the goal, make
  treats the makefiles it has read in the same way; the Makefile is taken to be called
  \<open>Makefile\<close>. The depth of the search is bounded by a fuel argument.

  Time is a counter that advances with every command make runs, so a file that a command
  writes is newer than every file that does not carry a time in the future. make is run
  as \<open>make\<close>, with no options or variables on its command line or in \<open>MAKEFLAGS\<close>.
\<close>

datatype make_error =
    No_rule string
  | Recipe_failed string
  | Expansion_failed string
  | Read_failed
  | Builtin_rule string
  | Out_of_fuel

record mstate =
  mtime :: filesys
  clock :: nat
  executed :: "string list"

definition out_of_date :: "filesys \<Rightarrow> rule \<Rightarrow> bool" where
  "out_of_date fs r =
    (case fs (target r) of
       None \<Rightarrow> True
     | Some t \<Rightarrow> list_ex (\<lambda>p. case fs p of None \<Rightarrow> True | Some tp \<Rightarrow> t < tp) (prereqs r))"

primrec run_lines ::
  "(string \<Rightarrow> bool) \<Rightarrow> (string \<Rightarrow> string option) \<Rightarrow> string list \<Rightarrow> mstate \<Rightarrow>
     make_error option \<times> mstate" where
  "run_lines ok xp [] st = (None, st)"
| "run_lines ok xp (l # ls) st =
     (case xp l of
        None \<Rightarrow> (Some (Expansion_failed l), st)
      | Some cmd \<Rightarrow>
          let st1 = st\<lparr>executed := executed st @ [cmd], clock := Suc (clock st)\<rparr>
          in if ok cmd then run_lines ok xp ls st1 else (Some (Recipe_failed cmd), st1))"

definition run_recipe ::
  "(string \<Rightarrow> bool) \<Rightarrow> (string \<Rightarrow> string option) \<Rightarrow> rule \<Rightarrow> mstate \<Rightarrow>
     make_error option \<times> mstate" where
  "run_recipe ok xp r st =
    (case run_lines ok xp (recipe r) st of
       (Some e, st1) \<Rightarrow> (Some e, st1)
     | (None, st1) \<Rightarrow> (None, st1\<lparr>mtime := effect r (mtime st1) (clock st1)\<rparr>))"

primrec for_each ::
  "(string \<Rightarrow> mstate \<Rightarrow> make_error option \<times> mstate) \<Rightarrow> string list \<Rightarrow> mstate \<Rightarrow>
     make_error option \<times> mstate" where
  "for_each f [] st = (None, st)"
| "for_each f (p # ps) st =
     (case f p st of (Some e, st1) \<Rightarrow> (Some e, st1) | (None, st1) \<Rightarrow> for_each f ps st1)"

primrec update ::
  "nat \<Rightarrow> (string \<Rightarrow> bool) \<Rightarrow> (string \<Rightarrow> string option) \<Rightarrow> (filesys \<Rightarrow> string \<Rightarrow> bool) \<Rightarrow>
     rule list \<Rightarrow> string \<Rightarrow> mstate \<Rightarrow> make_error option \<times> mstate" where
  "update 0 ok xp builtin rules t st = (Some Out_of_fuel, st)"
| "update (Suc n) ok xp builtin rules t st =
     (case find (\<lambda>r. target r = t) rules of
        None \<Rightarrow>
          (if builtin (mtime st) t then (Some (Builtin_rule t), st)
           else if mtime st t = None then (Some (No_rule t), st)
           else (None, st))
      | Some r \<Rightarrow>
          (if recipe r = [] \<and> builtin (mtime st) t then (Some (Builtin_rule t), st)
           else
             case for_each (update n ok xp builtin rules) (prereqs r) st of
               (Some e, st1) \<Rightarrow> (Some e, st1)
             | (None, st1) \<Rightarrow>
                 if out_of_date (mtime st1) r then run_recipe ok xp r st1 else (None, st1)))"

definition makefiles :: "string list" where
  "makefiles = [''Makefile'', ''../../../Makefile.in'']"

text \<open>\<open>make\<close> with no argument: the goal is the target of the first rule.\<close>

definition gnu_make ::
  "nat \<Rightarrow> environ \<Rightarrow> (string \<Rightarrow> bool) \<Rightarrow> (filesys \<Rightarrow> string \<Rightarrow> bool) \<Rightarrow> mstate \<Rightarrow>
     make_error option \<times> mstate" where
  "gnu_make fuel env ok builtin st =
    (case variables fuel env of
       None \<Rightarrow> (Some Read_failed, st)
     | Some vt \<Rightarrow>
         (case find (builtin (mtime st)) makefiles of
            Some m \<Rightarrow> (Some (Builtin_rule m), st)
          | None \<Rightarrow>
              update fuel ok (expand fuel env vt) builtin makefile (target (hd makefile)) st))"

definition new_cmds :: "mstate \<Rightarrow> mstate \<Rightarrow> string list" where
  "new_cmds st st' = drop (length (executed st)) (executed st')"

text \<open>A target is stale against a prerequisite when the target is missing, or the
  prerequisite is missing or strictly newer.\<close>

definition stale :: "filesys \<Rightarrow> string \<Rightarrow> string \<Rightarrow> bool" where
  "stale fs t p =
    (case fs t of
       None \<Rightarrow> True
     | Some tt \<Rightarrow> (case fs p of None \<Rightarrow> True | Some tp \<Rightarrow> tt < tp))"

text \<open>The conditions under which the properties below are stated: the value of
  \<open>ASL_BUILD\<close> is plain text, the source file exists, no built-in rule applies to the
  makefiles, to \<open>ALL\<close> or to the source, and the shared object, if there is one, does
  not carry a time in the future.\<close>

definition plain :: "string \<Rightarrow> bool" where
  "plain s \<longleftrightarrow> CHR ''$'' \<notin> set s"

definition no_builtin :: "(filesys \<Rightarrow> string \<Rightarrow> bool) \<Rightarrow> filesys \<Rightarrow> bool" where
  "no_builtin builtin fs \<longleftrightarrow>
     \<not> builtin fs ''Makefile'' \<and> \<not> builtin fs ''../../../Makefile.in'' \<and>
     \<not> builtin fs ''ALL'' \<and> \<not> builtin fs ''cubic_roots.c''"

definition not_future :: "mstate \<Rightarrow> string \<Rightarrow> bool" where
  "not_future st f = (case mtime st f of None \<Rightarrow> True | Some t \<Rightarrow> t \<le> clock st)"

definition compile_text :: "environ \<Rightarrow> string" where
  "compile_text env =
     ''gcc -c -Wall -Wextra -O3'' @
     (if getenv env ''ASL_BUILD'' = [] then [] else '' -I'' @ getenv env ''ASL_BUILD'') @
     '' -fPIC cubic_roots.c -o cubic_roots.o''"

definition link_text :: string where
  "link_text = ''gcc -shared -lm cubic_roots.o -o cubic_roots.so''"

text \<open>A fragment of make's built-in rules, enough to try the model on: a program is
  built from an object, C, C++, Fortran, assembler or shell source of the same name.\<close>

definition program_rules :: "filesys \<Rightarrow> string \<Rightarrow> bool" where
  "program_rules fs t =
    list_ex (\<lambda>suf. fs (t @ suf) \<noteq> None)
      [''.o'', ''.c'', ''.cc'', ''.C'', ''.cpp'', ''.f'', ''.F'', ''.s'', ''.S'', ''.sh'']"

definition env_none :: environ where
  "env_none = Map.empty"

definition env_asl :: environ where
  "env_asl = [''ASL_BUILD'' \<mapsto> ''/opt/asl/sys.x86_64.Linux'']"

definition env_boost :: environ where
  "env_boost = [''BOOST_HEADER'' \<mapsto> ''/opt/boost'']"

definition env_asl_via_cc :: environ where
  "env_asl_via_cc = [''ASL_BUILD'' \<mapsto> ''/opt/$(CC)/asl'']"

definition env_asl_via_boost :: environ where
  "env_asl_via_boost =
    [''ASL_BUILD'' \<mapsto> ''$(BOOST_HEADER)'', ''BOOST_HEADER'' \<mapsto> ''/opt/boost'']"

definition all_ok :: "string \<Rightarrow> bool" where
  "all_ok c = True"

definition gcc_broken :: "string \<Rightarrow> bool" where
  "gcc_broken c = False"

definition st_fresh :: mstate where
  "st_fresh = \<lparr>mtime = [''cubic_roots.c'' \<mapsto> 1], clock = 5, executed = []\<rparr>"

definition st_built :: mstate where
  "st_built =
    \<lparr>mtime = [''cubic_roots.c'' \<mapsto> 1, ''cubic_roots.o'' \<mapsto> 6, ''cubic_roots.so'' \<mapsto> 7],
     clock = 7, executed = []\<rparr>"

definition st_touched :: mstate where
  "st_touched =
    \<lparr>mtime = [''cubic_roots.c'' \<mapsto> 10, ''cubic_roots.o'' \<mapsto> 6, ''cubic_roots.so'' \<mapsto> 7],
     clock = 10, executed = []\<rparr>"

definition st_unlinked :: mstate where
  "st_unlinked =
    \<lparr>mtime = [''cubic_roots.c'' \<mapsto> 1, ''cubic_roots.o'' \<mapsto> 6],
     clock = 6, executed = []\<rparr>"

definition st_with_ALL_c :: mstate where
  "st_with_ALL_c =
    \<lparr>mtime = [''cubic_roots.c'' \<mapsto> 1, ''cubic_roots.o'' \<mapsto> 6, ''cubic_roots.so'' \<mapsto> 7,
              ''ALL.c'' \<mapsto> 3],
     clock = 7, executed = []\<rparr>"

section \<open>The CI pipeline\<close>

text \<open>
  The \<open>steps\<close> of the job, in the order of the YAML list. A step is what it does and its
  \<open>when\<close> attribute; the list gives none, so every step has the default, \<open>on_success\<close>.
  The runner goes through the list once. It keeps the status of the job so far (0 until
  a step fails, then the status of the first step that failed). A step with
  \<open>on_success\<close> runs only while the job has not failed, one with \<open>on_fail\<close> only after
  a failure, one with \<open>always\<close> in both cases. The result is the list of what ran, in
  the order it ran, and the status of the job.
\<close>

datatype action = Checkout | Shell string

datatype cond = On_success | On_fail | Always

record step =
  action :: action
  when_attr :: cond

definition run_default :: "string \<Rightarrow> step" where
  "run_default c = \<lparr>action = Shell c, when_attr = On_success\<rparr>"

definition steps :: "step list" where
  \<open>steps =
    [\<lparr>action = Checkout, when_attr = On_success\<rparr>,
     run_default ''./install-solvers.sh'',
     run_default ''sudo pip install pip==18.0.0'',
     run_default ''sudo pip install -qr requirements.txt'',
     run_default ''pyomo --version'',
     run_default ''sudo python setup.py -q install'',
     run_default ''cd docs && make html'',
     run_default ''pytest docs idaes -m "not nocircleci"'',
     run_default ''coverage report'',
     run_default ''coveralls'']\<close>

definition runs :: "cond \<Rightarrow> nat \<Rightarrow> bool" where
  "runs c failed = (case c of On_success \<Rightarrow> failed = 0 | On_fail \<Rightarrow> failed \<noteq> 0 | Always \<Rightarrow> True)"

primrec run_steps :: "(action \<Rightarrow> nat) \<Rightarrow> nat \<Rightarrow> step list \<Rightarrow> action list \<times> nat" where
  "run_steps status failed [] = ([], failed)"
| "run_steps status failed (x # xs) =
     (if runs (when_attr x) failed
      then (case run_steps status (if failed = 0 then status (action x) else failed) xs of
              (done, r) \<Rightarrow> (action x # done, r))
      else run_steps status failed xs)"

definition job :: "(action \<Rightarrow> nat) \<Rightarrow> action list \<times> nat" where
  "job status = run_steps status 0 steps"

definition commands :: "action list" where
  "commands = map action steps"

definition pytest_fails :: "action \<Rightarrow> nat" where
  \<open>pytest_fails x = (if x = Shell ''pytest docs idaes -m "not nocircleci"'' then 1 else 0)\<close>

definition all_pass :: "action \<Rightarrow> nat" where
  "all_pass x = 0"

section \<open>The Heater notebook\<close>

text \<open>
  \<open>make_control_volume\<close> of the notebook. A configuration value is a Python object;
  \<open>x is not False\<close> holds for every object but the constant \<open>False\<close> itself. The unit is
  its attribute dictionary, and \<open>setattr\<close> stores into it. The class
  \<open>ControlVolume0DBlock\<close> and its methods belong to the modelling library: whether a call
  to them raises is a parameter \<open>lib\<close>, and a control volume records the calls it
  received. The function returns the exception that left it (if any), the unit as it is
  then, and the library calls it made.
\<close>

datatype pyval = PyBool bool | PyNone | PyInt int | PyStr string | PyObj nat


datatype py_exn = ValueError string | LibraryError string











section \<open>Properties of the idaes-docker script\<close>

lemma usage_exits: "usage s = (Exit 1, s\<lparr>trace := trace s @ map Print usage_text\<rparr>)"
  by (simp add: usage_def emits_def)

text \<open>
  Claim C1. Called with no first argument (or an empty one), or with a first argument
  that is none of \<open>test\<close>, \<open>notebook\<close>, \<open>update\<close>, \<open>create\<close>, \<open>help\<close>, \<open>-h\<close>, the script
  prints the usage message, nothing else, and exits with code 1.
\<close>

theorem idaes_docker_unknown_command:
  assumes "args = [] \<or>
    (\<exists>a rest. args = a # rest \<and>
       a \<notin> {''test'', ''notebook'', ''update'', ''create'', ''help'', ''-h''})"
  shows "idaes_docker h args s = (Exit 1, s\<lparr>trace := trace s @ map Print usage_text\<rparr>)"
  using assms
  by (auto simp: idaes_docker_def first_arg_def and_then_def usage_exits)

theorem idaes_docker_unknown_command_witness:
  "idaes_docker host_bad_network [] state_empty =
     (Exit 1, state_empty\<lparr>trace := map Print usage_text\<rparr>) \<and>
   ''bogus'' \<notin> {''test'', ''notebook'', ''update'', ''create'', ''help'', ''-h''} \<and>
   idaes_docker host_bad_network [''bogus'', ''x''] state_empty =
     (Exit 1, state_empty\<lparr>trace := map Print usage_text\<rparr>)"
  using idaes_docker_unknown_command [of "[]" host_bad_network state_empty]
    idaes_docker_unknown_command [of "[''bogus'', ''x'']" host_bad_network state_empty]
  by (simp add: state_empty_def)

lemma install_image_download_failed:
  assumes "wget_present h \<or> curl_present h" and "download_status h \<noteq> 0"
  shows "install_image h s =
    (Exit 1, s\<lparr>trace := trace s @
       (if wget_present h
        then [Run ''wget -h > /dev/null 2>&1'', Print ''Downloading image..\<newline>'',
              Run ''wget https://s3.amazonaws.com/idaes/idaes-pse/idaes-pse-docker-latest.tgz'']
        else [Run ''wget -h > /dev/null 2>&1'', Run ''curl -h > /dev/null 2>&1'',
              Print ''Downloading image..\<newline>'',
              Run ''curl -o idaes-pse-docker-latest.tgz https://s3.amazonaws.com/idaes/idaes-pse/idaes-pse-docker-latest.tgz''])
       @ [Print ''Download failed. Abort command.\<newline>'']\<rparr>)"
  using assms
  by (auto simp: install_image_def Let_def and_then_def download_def emit_def)

text \<open>
  Claim C2. In \<open>install_image\<close>, when a download command was found (\<open>wget\<close> or \<open>curl\<close>)
  and it ends with a status other than 0, the function exits with code 1, the last thing
  it prints is \<open>Download failed. Abort command.\<close>, it has not run \<open>docker load\<close>, and
  the image store is as it was.
\<close>

theorem install_image_download_failure:
  assumes "wget_present h \<or> curl_present h" and "download_status h \<noteq> 0"
  shows "fst (install_image h s) = Exit 1 \<and>
     last (trace (snd (install_image h s))) = Print ''Download failed. Abort command.\<newline>'' \<and>
     Run docker_load_cmd \<notin> set (new_events s (snd (install_image h s))) \<and>
     images (snd (install_image h s)) = images s"
  using assms
  by (simp add: install_image_download_failed new_events_def docker_load_cmd_def)

theorem install_image_download_failure_witness:
  "(wget_present host_bad_network \<or> curl_present host_bad_network) \<and>
   download_status host_bad_network \<noteq> 0 \<and>
   fst (install_image host_bad_network state_empty) = Exit 1 \<and>
   last (trace (snd (install_image host_bad_network state_empty))) =
     Print ''Download failed. Abort command.\<newline>'' \<and>
   Run docker_load_cmd \<notin>
     set (new_events state_empty (snd (install_image host_bad_network state_empty))) \<and>
   images (snd (install_image host_bad_network state_empty)) = images state_empty"
  using install_image_download_failure [of host_bad_network state_empty]
  by (simp add: host_bad_network_def)

text \<open>With a successful download the same command is run: the test above is not
  passed by a function that never loads.\<close>

lemma install_image_loads_after_download:
  "wget_present h \<Longrightarrow> download_status h = 0 \<Longrightarrow>
     Run docker_load_cmd \<in> set (new_events s (snd (install_image h s)))"
  by (auto simp: install_image_def Let_def and_then_def download_def emit_def docker_load_def
      new_events_def docker_load_cmd_def)

subsection \<open>Which runs print the usage message\<close>

lemma quiet_refl: "quiet s s"
  by (simp add: quiet_def)

lemma quiet_emit: "e \<noteq> usage_head \<Longrightarrow> quiet s s' \<Longrightarrow> quiet s (emit e s')"
  by (auto simp: quiet_def emit_def)

lemma quiet_emits: "usage_head \<notin> set es \<Longrightarrow> quiet s s' \<Longrightarrow> quiet s (emits es s')"
  by (auto simp: quiet_def emits_def)

lemma quiet_files: "quiet s s' \<Longrightarrow> quiet s (s'\<lparr>files := f\<rparr>)"
  by (simp add: quiet_def)

lemma quiet_images: "quiet s s' \<Longrightarrow> quiet s (s'\<lparr>images := f\<rparr>)"
  by (simp add: quiet_def)

lemmas quiet_intros = quiet_emit quiet_files quiet_images

lemma quiet_install_image: "quiet s s' \<Longrightarrow> quiet s (snd (install_image h s'))"
  by (auto simp: install_image_def Let_def and_then_def download_def docker_load_def
      usage_head_def intro!: quiet_intros)

lemma quiet_check_image: "quiet s s' \<Longrightarrow> quiet s (snd (check_image h s'))"
  by (auto simp: check_image_def Let_def and_then_def install_image_help_def usage_head_def
      intro!: quiet_install_image quiet_emits quiet_intros)

lemma quiet_docker_build: "quiet s s' \<Longrightarrow> quiet s (docker_build h t ts s')"
  by (auto simp: docker_build_def Let_def usage_head_def split: option.splits
      intro!: quiet_intros)

lemma quiet_docker_save: "quiet s s' \<Longrightarrow> quiet s (docker_save i n s')"
  by (auto simp: docker_save_def Let_def usage_head_def intro!: quiet_intros)

lemma quiet_build_image: "quiet s s' \<Longrightarrow> quiet s (snd (build_image h as s'))"
  by (auto simp: build_image_def Let_def usage_head_def python_version_cmd_def
      intro!: quiet_docker_build quiet_docker_save quiet_intros)

lemma quiet_docker_run:
  "quiet s s' \<Longrightarrow> quiet s (snd (docker_run h c s'))"
  by (auto simp: docker_run_def usage_head_def intro!: quiet_intros)

lemma quiet_and_then:
  "quiet s (snd r) \<Longrightarrow> (\<And>st s'. quiet s s' \<Longrightarrow> quiet s (snd (k st s'))) \<Longrightarrow>
     quiet s (snd (and_then r k))"
  by (auto simp: and_then_def split: prod.splits outcome.splits)

lemma quiet_not_usage: "quiet s s' \<Longrightarrow> usage_head \<notin> set (new_events s s')"
  by (auto simp: quiet_def new_events_def)

lemma quiet_commands:
  assumes "first_arg args \<in> {''test'', ''notebook'', ''update'', ''create''}"
  shows "quiet s (snd (idaes_docker h args s))"
  using assms
  by (auto simp: idaes_docker_def and_then_def usage_head_def
      intro!: quiet_and_then [unfolded and_then_def] quiet_check_image quiet_docker_run
        quiet_install_image quiet_build_image quiet_intros quiet_refl)

text \<open>
  Claim C9. Every run of the script that prints the usage message ends with exit code 1:
  the function \<open>usage\<close> always exits with 1, and the commands \<open>help\<close> and \<open>-h\<close>, which
  the message documents, print it and so exit with 1 as well.
\<close>

theorem usage_always_exits_1:
  "(usage_head \<in> set (new_events s (snd (idaes_docker h args s))) \<longrightarrow>
      fst (idaes_docker h args s) = Exit 1) \<and>
   fst (usage s) = Exit 1 \<and>
   idaes_docker h (''help'' # rest) s =
     (Exit 1, s\<lparr>trace := trace s @ map Print usage_text\<rparr>) \<and>
   idaes_docker h (''-h'' # rest) s =
     (Exit 1, s\<lparr>trace := trace s @ map Print usage_text\<rparr>)"
proof -
  have "fst (idaes_docker h args s) = Exit 1"
    if u: "usage_head \<in> set (new_events s (snd (idaes_docker h args s)))"
  proof (cases "first_arg args \<in> {''test'', ''notebook'', ''update'', ''create''}")
    case False
    then show ?thesis
      by (simp add: idaes_docker_def and_then_def usage_exits)
  next
    case True
    then have "usage_head \<notin> set (new_events s (snd (idaes_docker h args s)))"
      by (intro quiet_not_usage quiet_commands)
    with u show ?thesis by simp
  qed
  moreover have "fst (usage s) = Exit 1"
    by (simp add: usage_exits)
  moreover have "idaes_docker h (''help'' # rest) s =
      (Exit 1, s\<lparr>trace := trace s @ map Print usage_text\<rparr>)"
    by (simp add: idaes_docker_def first_arg_def and_then_def usage_exits)
  moreover have "idaes_docker h (''-h'' # rest) s =
      (Exit 1, s\<lparr>trace := trace s @ map Print usage_text\<rparr>)"
    by (simp add: idaes_docker_def first_arg_def and_then_def usage_exits)
  ultimately show ?thesis by blast
qed

theorem usage_always_exits_1_witness:
  "usage_head \<in> set (new_events state_empty (snd (idaes_docker host_bad_network [''help''] state_empty))) \<and>
   fst (idaes_docker host_bad_network [''help''] state_empty) = Exit 1"
proof -
  have run: "idaes_docker host_bad_network [''help''] state_empty =
      (Exit 1, state_empty\<lparr>trace := trace state_empty @ map Print usage_text\<rparr>)"
    using usage_always_exits_1 [of state_empty host_bad_network "[''help'']" "[]"] by blast
  have t: "trace state_empty = []"
    by (simp add: state_empty_def)
  have "usage_head \<in> set (new_events state_empty (snd (idaes_docker host_bad_network [''help''] state_empty)))"
    by (simp add: run new_events_def t usage_text_def usage_head_def)
  then show ?thesis
    using usage_always_exits_1 [of state_empty host_bad_network "[''help'']" "[]"] by blast
qed

text \<open>
  Claim C10. \<open>build_image\<close> skips what is already there. When the archive
  \<open>idaes-pse-docker-VERSION.tgz\<close> exists, it detects and reports the version, prints the
  \<open>Nothing to do\<close> line for the file and returns: no \<open>docker build\<close>, no \<open>docker save\<close>,
  files and image store unchanged. When the archive is absent and the image tagged with
  the version exists, it runs no \<open>docker build\<close>: it reports the image and runs
  \<open>docker save\<close> into the archive.
\<close>

theorem build_image_idempotent:
  "(''idaes-pse-docker-'' @ version h @ ''.tgz'' \<in> files s \<longrightarrow>
      build_image h args s =
        (Return 0, s\<lparr>trace := trace s @
           [Run python_version_cmd,
            Print (''Detected IDAES package version '' @ version h @ ''\<newline>''),
            Print (''Nothing to do: image file idaes-pse-docker-'' @ version h @
                   ''.tgz already exists\<newline>'')]\<rparr>)) \<and>
   (''idaes-pse-docker-'' @ version h @ ''.tgz'' \<notin> files s \<and>
    images s (''idaes/idaes_pse:v'' @ version h) = Some imgid \<and> imgid \<noteq> [] \<longrightarrow>
      build_image h args s =
        (Return 0,
         s\<lparr>files := insert (''idaes-pse-docker-'' @ version h @ ''.tgz'') (files s),
            trace := trace s @
           [Run python_version_cmd,
            Print (''Detected IDAES package version '' @ version h @ ''\<newline>''),
            Run (''docker images -q idaes/idaes_pse:v'' @ version h),
            Print (''Nothing to do: image idaes/idaes_pse:v'' @ version h @
                   '' already exists ('' @ imgid @ '')\<newline>''),
            Print ''Saving image..\<newline>'',
            Run (''docker save '' @ imgid @ '' | gzip -c >  idaes-pse-docker-'' @ version h @
                 ''.tgz''),
            Print (''Done: idaes-pse-docker-'' @ version h @ ''.tgz \<newline>'')]\<rparr>))"
  by (auto simp: build_image_def Let_def emit_def docker_save_def docker_images_q_def
      captured_def IMAGE_REPO_def IMAGE_TAG_def)

theorem build_image_idempotent_witness:
  "''idaes-pse-docker-'' @ version host_bad_network @ ''.tgz'' \<in> files state_archived \<and>
   files (snd (build_image host_bad_network [] state_archived)) = files state_archived \<and>
   images (snd (build_image host_bad_network [] state_archived)) = images state_archived \<and>
   ''idaes-pse-docker-'' @ version host_bad_network @ ''.tgz'' \<notin> files state_imaged \<and>
   images state_imaged (''idaes/idaes_pse:v'' @ version host_bad_network) = Some ''0f3a9c'' \<and>
   ''0f3a9c'' \<noteq> [] \<and>
   new_events state_imaged (snd (build_image host_bad_network [] state_imaged)) =
     [Run python_version_cmd,
      Print ''Detected IDAES package version 1.0\<newline>'',
      Run ''docker images -q idaes/idaes_pse:v1.0'',
      Print ''Nothing to do: image idaes/idaes_pse:v1.0 already exists (0f3a9c)\<newline>'',
      Print ''Saving image..\<newline>'',
      Run ''docker save 0f3a9c | gzip -c >  idaes-pse-docker-1.0.tgz'',
      Print ''Done: idaes-pse-docker-1.0.tgz \<newline>'']"
proof -
  have v: "version host_bad_network = ''1.0''"
    by (simp add: host_bad_network_def)
  have a: "''idaes-pse-docker-'' @ version host_bad_network @ ''.tgz'' \<in> files state_archived"
    by (simp add: v state_archived_def)
  have b: "''idaes-pse-docker-'' @ version host_bad_network @ ''.tgz'' \<notin> files state_imaged \<and>
      images state_imaged (''idaes/idaes_pse:v'' @ version host_bad_network) = Some ''0f3a9c'' \<and>
      ''0f3a9c'' \<noteq> []"
    by (simp add: v state_imaged_def)
  have t: "trace state_imaged = []"
    by (simp add: state_imaged_def)
  from a build_image_idempotent [where h = host_bad_network and s = state_archived and args = "[]"]
  have r1: "build_image host_bad_network [] state_archived =
      (Return 0, state_archived\<lparr>trace := trace state_archived @
         [Run python_version_cmd,
          Print (''Detected IDAES package version '' @ version host_bad_network @ ''\<newline>''),
          Print (''Nothing to do: image file idaes-pse-docker-'' @ version host_bad_network @
                 ''.tgz already exists\<newline>'')]\<rparr>)"
    by blast
  from b build_image_idempotent [where h = host_bad_network and s = state_imaged and args = "[]"
      and imgid = "''0f3a9c''"]
  have r2: "build_image host_bad_network [] state_imaged =
        (Return 0,
         state_imaged\<lparr>files := insert (''idaes-pse-docker-'' @ version host_bad_network @ ''.tgz'') (files state_imaged),
            trace := trace state_imaged @
           [Run python_version_cmd,
            Print (''Detected IDAES package version '' @ version host_bad_network @ ''\<newline>''),
            Run (''docker images -q idaes/idaes_pse:v'' @ version host_bad_network),
            Print (''Nothing to do: image idaes/idaes_pse:v'' @ version host_bad_network @
                   '' already exists ('' @ ''0f3a9c'' @ '')\<newline>''),
            Print ''Saving image..\<newline>'',
            Run (''docker save '' @ ''0f3a9c'' @ '' | gzip -c >  idaes-pse-docker-'' @ version host_bad_network @
                 ''.tgz''),
            Print (''Done: idaes-pse-docker-'' @ version host_bad_network @ ''.tgz \<newline>'')]\<rparr>)"
    by blast
  have c: "new_events state_imaged (snd (build_image host_bad_network [] state_imaged)) =
     [Run python_version_cmd,
      Print ''Detected IDAES package version 1.0\<newline>'',
      Run ''docker images -q idaes/idaes_pse:v1.0'',
      Print ''Nothing to do: image idaes/idaes_pse:v1.0 already exists (0f3a9c)\<newline>'',
      Print ''Saving image..\<newline>'',
      Run ''docker save 0f3a9c | gzip -c >  idaes-pse-docker-1.0.tgz'',
      Print ''Done: idaes-pse-docker-1.0.tgz \<newline>'']"
    by (simp add: r2 new_events_def t v)
  have d: "files (snd (build_image host_bad_network [] state_archived)) = files state_archived \<and>
   images (snd (build_image host_bad_network [] state_archived)) = images state_archived"
    by (simp add: r1)
  from a b c d show ?thesis by blast
qed

section \<open>Properties of the CI pipeline\<close>

lemma run_steps_failed:
  "failed \<noteq> 0 \<Longrightarrow> \<forall>x\<in>set xs. when_attr x = On_success \<Longrightarrow>
     run_steps status failed xs = ([], failed)"
  by (induction xs) (auto simp: runs_def)

lemma run_steps_first_failure:
  assumes "\<forall>x\<in>set xs. when_attr x = On_success" "i < length xs"
    "status (action (xs ! i)) \<noteq> 0" "\<forall>j<i. status (action (xs ! j)) = 0"
  shows "run_steps status 0 xs = (take (Suc i) (map action xs), status (action (xs ! i)))"
  using assms
proof (induction xs arbitrary: i)
  case Nil
  then show ?case by simp
next
  case (Cons x xs)
  show ?case
  proof (cases i)
    case 0
    with Cons.prems show ?thesis
      by (simp add: runs_def run_steps_failed)
  next
    case (Suc k)
    with Cons.prems have x: "status (action x) = 0" by auto
    have "run_steps status 0 xs =
        (take (Suc k) (map action xs), status (action (xs ! k)))"
    proof (rule Cons.IH)
      show "\<forall>x\<in>set xs. when_attr x = On_success" using Cons.prems(1) by simp
      show "k < length xs" using Cons.prems(2) Suc by simp
      show "status (action (xs ! k)) \<noteq> 0" using Cons.prems(3) Suc by simp
      show "\<forall>j<k. status (action (xs ! j)) = 0"
      proof (intro allI impI)
        fix j assume "j < k"
        then have "Suc j < i" using Suc by simp
        with Cons.prems(4) have "status (action ((x # xs) ! Suc j)) = 0" by blast
        then show "status (action (xs ! j)) = 0" by simp
      qed
    qed
    with x Cons.prems(1) Suc show ?thesis
      by (simp add: runs_def)
  qed
qed

lemma run_steps_all:
  "\<forall>x\<in>set xs. when_attr x = On_success \<and> status (action x) = 0 \<Longrightarrow>
     run_steps status 0 xs = (map action xs, 0)"
  by (induction xs) (auto simp: runs_def)

lemma first_failure_exists:
  fixes status :: "action \<Rightarrow> nat"
  assumes "i < length cs" "status (cs ! i) \<noteq> 0"
  shows "\<exists>m\<le>i. status (cs ! m) \<noteq> 0 \<and> (\<forall>j<m. status (cs ! j) = 0)"
proof -
  define m where "m = (LEAST n. status (cs ! n) \<noteq> 0)"
  have 1: "status (cs ! m) \<noteq> 0"
    unfolding m_def using assms(2) by (rule LeastI)
  have 2: "m \<le> i"
    unfolding m_def using assms(2) by (rule Least_le)
  have 3: "\<forall>j<m. status (cs ! j) = 0"
    unfolding m_def using not_less_Least by blast
  from 1 2 3 show ?thesis by blast
qed

lemma not_in_take: "distinct xs \<Longrightarrow> j < length xs \<Longrightarrow> n \<le> j \<Longrightarrow> xs ! j \<notin> set (take n xs)"
  by (auto simp: in_set_conv_nth nth_eq_iff_index_eq)

lemma steps_default: "\<forall>x\<in>set steps. when_attr x = On_success"
  by (simp add: steps_def run_default_def)

lemma commands_text:
  \<open>commands =
    [Checkout,
     Shell ''./install-solvers.sh'',
     Shell ''sudo pip install pip==18.0.0'',
     Shell ''sudo pip install -qr requirements.txt'',
     Shell ''pyomo --version'',
     Shell ''sudo python setup.py -q install'',
     Shell ''cd docs && make html'',
     Shell ''pytest docs idaes -m "not nocircleci"'',
     Shell ''coverage report'',
     Shell ''coveralls'']\<close>
  by (simp add: commands_def steps_def run_default_def)

lemma distinct_commands: "distinct commands"
  by (simp add: commands_text)

lemma job_first_failure:
  assumes "i < length commands" "status (commands ! i) \<noteq> 0"
    "\<forall>j<i. status (commands ! j) = 0"
  shows "job status = (take (Suc i) commands, status (commands ! i))"
proof -
  have len: "i < length steps" using assms(1) by (simp add: commands_def)
  have a: "status (action (steps ! i)) \<noteq> 0"
    using assms(2) len by (simp add: commands_def)
  have b: "\<forall>j<i. status (action (steps ! j)) = 0"
  proof (intro allI impI)
    fix j assume j: "j < i"
    then have "status (commands ! j) = 0" using assms(3) by blast
    moreover have "j < length steps" using j len by simp
    ultimately show "status (action (steps ! j)) = 0" by (simp add: commands_def)
  qed
  from run_steps_first_failure [OF steps_default len a b] len
  show ?thesis by (simp add: job_def commands_def)
qed

text \<open>The halt is a matter of the \<open>when\<close> attributes, which this list leaves at their
  default: a last step marked \<open>always\<close> would run after a failure.\<close>

lemma always_step_runs_after_failure:
  "run_steps (\<lambda>a. if a = Shell ''pytest'' then 1 else 0) 0
     [run_default ''pytest'',
      run_default ''coverage report'',
      \<lparr>action = Shell ''coveralls'', when_attr = Always\<rparr>] =
   ([Shell ''pytest'', Shell ''coveralls''], 1)"
  by (simp add: run_default_def runs_def)

text \<open>
  Claim C4. The job runs its steps in the order of the list: solver installation, the
  installation of the requirements, the installation of the package, the documentation
  build, the tests and the coverage report come in this order. When every step succeeds
  all of them run and the job ends with status 0. When a step is the first to end with a
  status other than 0, exactly the steps up to and including it have run, in order, and
  the job ends with its status. After any failing step no later step runs and the job
  fails. What has run is always an initial part of the list.
\<close>

theorem ci_steps_in_sequence_and_halt:
  \<open>(commands ! 1 = Shell ''./install-solvers.sh'' \<and>
    commands ! 3 = Shell ''sudo pip install -qr requirements.txt'' \<and>
    commands ! 5 = Shell ''sudo python setup.py -q install'' \<and>
    commands ! 6 = Shell ''cd docs && make html'' \<and>
    commands ! 7 = Shell ''pytest docs idaes -m "not nocircleci"'' \<and>
    commands ! 8 = Shell ''coverage report'') \<and>
   (\<exists>n. fst (job status) = take n commands) \<and>
   ((\<forall>x\<in>set commands. status x = 0) \<longrightarrow> job status = (commands, 0)) \<and>
   (\<forall>i. i < length commands \<and> status (commands ! i) \<noteq> 0 \<and>
        (\<forall>j<i. status (commands ! j) = 0) \<longrightarrow>
        job status = (take (Suc i) commands, status (commands ! i))) \<and>
   (\<forall>i j. i < j \<and> j < length commands \<and> status (commands ! i) \<noteq> 0 \<longrightarrow>
       commands ! j \<notin> set (fst (job status)) \<and> snd (job status) \<noteq> 0)\<close>
proof -
  have order: \<open>commands ! 1 = Shell ''./install-solvers.sh'' \<and>
    commands ! 3 = Shell ''sudo pip install -qr requirements.txt'' \<and>
    commands ! 5 = Shell ''sudo python setup.py -q install'' \<and>
    commands ! 6 = Shell ''cd docs && make html'' \<and>
    commands ! 7 = Shell ''pytest docs idaes -m "not nocircleci"'' \<and>
    commands ! 8 = Shell ''coverage report''\<close>
    by (simp add: commands_text)
  have all: "(\<forall>x\<in>set commands. status x = 0) \<longrightarrow> job status = (commands, 0)"
    using steps_default by (auto simp: job_def commands_def intro!: run_steps_all)
  have first: "\<forall>i. i < length commands \<and> status (commands ! i) \<noteq> 0 \<and>
        (\<forall>j<i. status (commands ! j) = 0) \<longrightarrow>
        job status = (take (Suc i) commands, status (commands ! i))"
    using job_first_failure by blast
  have halt: "\<forall>i j. i < j \<and> j < length commands \<and> status (commands ! i) \<noteq> 0 \<longrightarrow>
       commands ! j \<notin> set (fst (job status)) \<and> snd (job status) \<noteq> 0"
  proof (intro allI impI)
    fix i j assume h: "i < j \<and> j < length commands \<and> status (commands ! i) \<noteq> 0"
    then have "i < length commands" by simp
    with h first_failure_exists [of i commands status] obtain m where m: "m \<le> i"
      "status (commands ! m) \<noteq> 0" "\<forall>j<m. status (commands ! j) = 0" by blast
    with h have "m < length commands" by simp
    with m have r: "job status = (take (Suc m) commands, status (commands ! m))"
      using job_first_failure by blast
    from m(1) h have "Suc m \<le> j" by simp
    with h have "commands ! j \<notin> set (take (Suc m) commands)"
      using not_in_take [OF distinct_commands] by blast
    with r m(2) show "commands ! j \<notin> set (fst (job status)) \<and> snd (job status) \<noteq> 0"
      by simp
  qed
  have pre: "\<exists>n. fst (job status) = take n commands"
  proof (cases "\<forall>x\<in>set commands. status x = 0")
    case True
    with all have "fst (job status) = take (length commands) commands" by simp
    then show ?thesis ..
  next
    case False
    then obtain i where "i < length commands" "status (commands ! i) \<noteq> 0"
      by (auto simp: in_set_conv_nth)
    with first_failure_exists [of i commands status] obtain m where m: "m \<le> i"
      "status (commands ! m) \<noteq> 0" "\<forall>j<m. status (commands ! j) = 0" by blast
    with \<open>i < length commands\<close> have "m < length commands" by simp
    with m have "fst (job status) = take (Suc m) commands"
      using job_first_failure by simp
    then show ?thesis ..
  qed
  from order pre all first halt show ?thesis by blast
qed

theorem ci_steps_in_sequence_and_halt_witness:
  \<open>(7::nat) < 8 \<and> 8 < length commands \<and> pytest_fails (commands ! 7) \<noteq> 0 \<and>
   commands ! 8 \<notin> set (fst (job pytest_fails)) \<and>
   job pytest_fails =
     ([Checkout,
       Shell ''./install-solvers.sh'',
       Shell ''sudo pip install pip==18.0.0'',
       Shell ''sudo pip install -qr requirements.txt'',
       Shell ''pyomo --version'',
       Shell ''sudo python setup.py -q install'',
       Shell ''cd docs && make html'',
       Shell ''pytest docs idaes -m "not nocircleci"''], 1) \<and>
   list_all (\<lambda>x. all_pass x = 0) commands \<and> job all_pass = (commands, 0)\<close>
proof -
  have h: "(7::nat) < 8 \<and> 8 < length commands \<and> pytest_fails (commands ! 7) \<noteq> 0"
    by (simp add: commands_text pytest_fails_def)
  have f: "7 < length commands \<and> pytest_fails (commands ! 7) \<noteq> 0 \<and>
      (\<forall>j<7. pytest_fails (commands ! j) = 0)"
  proof (intro conjI allI impI)
    show "7 < length commands" by (simp add: commands_text)
    show "pytest_fails (commands ! 7) \<noteq> 0" using h by simp
    fix j :: nat assume "j < 7"
    then have "j = 0 \<or> j = 1 \<or> j = 2 \<or> j = 3 \<or> j = 4 \<or> j = 5 \<or> j = 6" by arith
    then show "pytest_fails (commands ! j) = 0"
      by (auto simp: commands_text pytest_fails_def)
  qed
  have a: "\<forall>x\<in>set commands. all_pass x = 0"
    by (simp add: all_pass_def)
  from a have b: "list_all (\<lambda>x. all_pass x = 0) commands"
    by (simp add: list_all_iff)
  note T = ci_steps_in_sequence_and_halt [of pytest_fails]
  from T f have r: "job pytest_fails = (take (Suc 7) commands, pytest_fails (commands ! 7))"
    by blast
  have r': \<open>job pytest_fails =
     ([Checkout,
       Shell ''./install-solvers.sh'',
       Shell ''sudo pip install pip==18.0.0'',
       Shell ''sudo pip install -qr requirements.txt'',
       Shell ''pyomo --version'',
       Shell ''sudo python setup.py -q install'',
       Shell ''cd docs && make html'',
       Shell ''pytest docs idaes -m "not nocircleci"''], 1)\<close>
    unfolding r by (simp add: commands_text pytest_fails_def)
  from T h have n: "commands ! 8 \<notin> set (fst (job pytest_fails))" by blast
  from a ci_steps_in_sequence_and_halt [of all_pass] have p: "job all_pass = (commands, 0)"
    by blast
  from h n r' b p show ?thesis by blast
qed

section \<open>Properties of the solver-interface Makefile\<close>

subsection \<open>Expansion\<close>

lemma scan_plain: "plain s \<Longrightarrow> scan In_text s = Some (map Lit s)"
  by (induction s) (auto simp: plain_def)

lemma substitute_lits: "substitute f (map Lit s) = Some s"
  by (induction s) auto

lemma expand_plain: "plain s \<Longrightarrow> expand (Suc n) env vt s = Some s"
  by (simp add: scan_plain substitute_lits)

lemma substitute_append:
  "substitute f (map Lit s @ ts) = map_option ((@) s) (substitute f ts)"
  by (induction s) (auto simp: option.map_comp comp_def option.map_ident)

lemma scans:
  "scan In_text ''$(ASL)'' = Some [Ref ''ASL'']"
  "scan In_text ''$(ASL_BUILD)'' = Some [Ref ''ASL_BUILD'']"
  "scan In_text ''$(BOOST)'' = Some [Ref ''BOOST'']"
  "scan In_text ''$(BOOST_HEADER)'' = Some [Ref ''BOOST_HEADER'']"
  "scan In_text ''$(CFLAGS)'' = Some [Ref ''CFLAGS'']"
  "scan In_text ''$(LDFLAGS)'' = Some [Ref ''LDFLAGS'']"
  "scan In_text ''-Wall -Wextra -O3 -I$(ASL)'' = Some (map Lit ''-Wall -Wextra -O3 -I'' @ [Ref ''ASL''])"
  "scan In_text compile_line =
     Some (Ref ''CC'' # map Lit '' -c '' @ Ref ''CFLAGS'' #
           map Lit '' -fPIC cubic_roots.c -o cubic_roots.o'')"
  "scan In_text link_line =
     Some (Ref ''CC'' # Lit (CHR '' '') # Ref ''LDFLAGS'' #
           map Lit '' cubic_roots.o -o cubic_roots.so'')"
  by (simp_all add: name_char_def compile_line_def link_line_def)

lemma plain_texts:
  "plain ''gcc''" "plain ''-Wall -Wextra -O3''" "plain ''-shared -lm''"
  by (simp_all add: plain_def)

text \<open>The variables after the Makefile has been read, for a value \<open>a\<close> of \<open>ASL\<close>.\<close>

lemma raw_Makefile_in:
  "raw_value env Makefile_in ''ASL'' = Some ''$(ASL_BUILD)''"
  "raw_value env Makefile_in ''BOOST'' = Some ''$(BOOST_HEADER)''"
  "raw_value env Makefile_in ''ASL_BUILD'' = Some (getenv env ''ASL_BUILD'')"
  "raw_value env Makefile_in ''BOOST_HEADER'' = Some (getenv env ''BOOST_HEADER'')"
  by (simp_all add: raw_value_def Makefile_in_def)

lemma raw_Makefile:
  "raw_value env (Makefile_in(''CFLAGS'' \<mapsto> fl, ''LDFLAGS'' \<mapsto> ld)) ''ASL'' = Some ''$(ASL_BUILD)''"
  "raw_value env (Makefile_in(''CFLAGS'' \<mapsto> fl, ''LDFLAGS'' \<mapsto> ld)) ''BOOST'' = Some ''$(BOOST_HEADER)''"
  "raw_value env (Makefile_in(''CFLAGS'' \<mapsto> fl, ''LDFLAGS'' \<mapsto> ld)) ''ASL_BUILD'' =
     Some (getenv env ''ASL_BUILD'')"
  "raw_value env (Makefile_in(''CFLAGS'' \<mapsto> fl, ''LDFLAGS'' \<mapsto> ld)) ''BOOST_HEADER'' =
     Some (getenv env ''BOOST_HEADER'')"
  "raw_value env (Makefile_in(''CFLAGS'' \<mapsto> fl, ''LDFLAGS'' \<mapsto> ld)) ''CC'' = Some ''gcc''"
  "raw_value env (Makefile_in(''CFLAGS'' \<mapsto> fl, ''LDFLAGS'' \<mapsto> ld)) ''CFLAGS'' = Some fl"
  "raw_value env (Makefile_in(''CFLAGS'' \<mapsto> fl, ''LDFLAGS'' \<mapsto> ld)) ''LDFLAGS'' = Some ld"
  by (simp_all add: raw_value_def Makefile_in_def)

lemma expand_ASL_in:
  assumes "plain (getenv env ''ASL_BUILD'')"
  shows "expand (Suc (Suc (Suc n))) env Makefile_in ''$(ASL)'' = Some (getenv env ''ASL_BUILD'')"
  using assms by (simp add: scans raw_Makefile_in scan_plain substitute_lits del: scan.simps)

lemma variables_plain:
  assumes "plain (getenv env ''ASL_BUILD'')"
  shows "variables (Suc (Suc (Suc n))) env =
    Some (Makefile_in
      (''CFLAGS'' \<mapsto> (if getenv env ''ASL_BUILD'' = [] then ''-Wall -Wextra -O3''
                         else ''-Wall -Wextra -O3 -I$(ASL)''),
       ''LDFLAGS'' \<mapsto> ''-shared -lm''))"
  unfolding variables_def expand_ASL_in [OF assms] by simp

lemma expand_ASL:
  assumes "plain (getenv env ''ASL_BUILD'')"
  shows "expand (Suc (Suc (Suc n))) env (Makefile_in(''CFLAGS'' \<mapsto> fl, ''LDFLAGS'' \<mapsto> ld))
           ''$(ASL)'' = Some (getenv env ''ASL_BUILD'')"
  using assms by (simp add: scans raw_Makefile scan_plain substitute_lits del: scan.simps)

lemma expand_BOOST:
  assumes "plain (getenv env ''BOOST_HEADER'')"
  shows "expand (Suc (Suc (Suc n))) env (Makefile_in(''CFLAGS'' \<mapsto> fl, ''LDFLAGS'' \<mapsto> ld))
           ''$(BOOST)'' = Some (getenv env ''BOOST_HEADER'')"
  using assms by (simp add: scans raw_Makefile scan_plain substitute_lits del: scan.simps)

lemma expand_CFLAGS_empty:
  "expand (Suc (Suc n)) env (Makefile_in(''CFLAGS'' \<mapsto> ''-Wall -Wextra -O3'', ''LDFLAGS'' \<mapsto> ld))
     ''$(CFLAGS)'' = Some ''-Wall -Wextra -O3''"
  by (simp add: scans raw_Makefile scan_plain plain_texts substitute_lits del: scan.simps)

lemma expand_CFLAGS_include:
  assumes "plain (getenv env ''ASL_BUILD'')"
  shows "expand (Suc (Suc (Suc (Suc n)))) env
           (Makefile_in(''CFLAGS'' \<mapsto> ''-Wall -Wextra -O3 -I$(ASL)'', ''LDFLAGS'' \<mapsto> ld))
           ''$(CFLAGS)'' = Some (''-Wall -Wextra -O3 -I'' @ getenv env ''ASL_BUILD'')"
  using assms
  by (simp add: scans raw_Makefile scan_plain substitute_lits substitute_append
      del: scan.simps)

lemma expand_compile_line_empty:
  "expand (Suc (Suc (Suc n))) env
     (Makefile_in(''CFLAGS'' \<mapsto> ''-Wall -Wextra -O3'', ''LDFLAGS'' \<mapsto> ld)) compile_line =
   Some ''gcc -c -Wall -Wextra -O3 -fPIC cubic_roots.c -o cubic_roots.o''"
  by (simp add: scans raw_Makefile scan_plain plain_texts substitute_lits substitute_append
      del: scan.simps)

lemma expand_compile_line_include:
  assumes "plain (getenv env ''ASL_BUILD'')"
  shows "expand (Suc (Suc (Suc (Suc (Suc n))))) env
     (Makefile_in(''CFLAGS'' \<mapsto> ''-Wall -Wextra -O3 -I$(ASL)'', ''LDFLAGS'' \<mapsto> ld))
     compile_line =
   Some (''gcc -c -Wall -Wextra -O3 -I'' @ getenv env ''ASL_BUILD'' @
         '' -fPIC cubic_roots.c -o cubic_roots.o'')"
  using assms
  by (simp add: scans raw_Makefile scan_plain plain_texts substitute_lits substitute_append
      del: scan.simps)

lemma expand_link_line:
  "expand (Suc (Suc (Suc n))) env
     (Makefile_in(''CFLAGS'' \<mapsto> fl, ''LDFLAGS'' \<mapsto> ''-shared -lm'')) link_line =
   Some link_text"
  by (simp add: scans raw_Makefile scan_plain plain_texts substitute_lits substitute_append
      link_text_def del: scan.simps)

lemma five: "5 + k = Suc (Suc (Suc (Suc (Suc k))))"
  by simp

lemma variables_5:
  assumes "plain (getenv env ''ASL_BUILD'')"
  shows "variables (5 + k) env =
    Some (Makefile_in
      (''CFLAGS'' \<mapsto> (if getenv env ''ASL_BUILD'' = [] then ''-Wall -Wextra -O3''
                         else ''-Wall -Wextra -O3 -I$(ASL)''),
       ''LDFLAGS'' \<mapsto> ''-shared -lm''))"
  unfolding five by (rule variables_plain [OF assms])

lemma ASL_plain:
  assumes "plain (getenv env ''ASL_BUILD'')"
  shows "ASL (5 + k) env = Some (getenv env ''ASL_BUILD'')"
  unfolding ASL_def in_makefile_def five
  by (simp add: variables_plain [OF assms] expand_ASL [OF assms] del: expand.simps)

lemma BOOST_plain:
  assumes "plain (getenv env ''ASL_BUILD'')" "plain (getenv env ''BOOST_HEADER'')"
  shows "BOOST (5 + k) env = Some (getenv env ''BOOST_HEADER'')"
  unfolding BOOST_def in_makefile_def five
  by (simp add: variables_plain [OF assms(1)] expand_BOOST [OF assms(2)] del: expand.simps)

lemma CFLAGS_plain:
  assumes "plain (getenv env ''ASL_BUILD'')"
  shows "CFLAGS (5 + k) env =
    Some (if getenv env ''ASL_BUILD'' = [] then ''-Wall -Wextra -O3''
          else ''-Wall -Wextra -O3 -I'' @ getenv env ''ASL_BUILD'')"
  unfolding CFLAGS_def in_makefile_def five
  by (simp add: variables_plain [OF assms] expand_CFLAGS_include [OF assms]
      expand_CFLAGS_empty del: expand.simps)

lemma expand_compile_line:
  assumes "plain (getenv env ''ASL_BUILD'')"
  shows "expand (5 + k) env
     (Makefile_in
       (''CFLAGS'' \<mapsto> (if getenv env ''ASL_BUILD'' = [] then ''-Wall -Wextra -O3''
                          else ''-Wall -Wextra -O3 -I$(ASL)''),
        ''LDFLAGS'' \<mapsto> ''-shared -lm'')) compile_line = Some (compile_text env)"
  unfolding five
  by (simp add: expand_compile_line_include [OF assms] expand_compile_line_empty
      compile_text_def del: expand.simps)

lemma expand_link_line_5:
  "expand (5 + k) env (Makefile_in(''CFLAGS'' \<mapsto> fl, ''LDFLAGS'' \<mapsto> ''-shared -lm''))
     link_line = Some link_text"
  unfolding five by (rule expand_link_line)

lemma compile_cmd_plain:
  assumes "plain (getenv env ''ASL_BUILD'')"
  shows "compile_cmd (5 + k) env = Some (compile_text env)"
  unfolding compile_cmd_def in_makefile_def
  by (simp add: variables_5 [OF assms] expand_compile_line [OF assms] del: expand.simps)

lemma link_cmd_plain:
  assumes "plain (getenv env ''ASL_BUILD'')"
  shows "link_cmd (5 + k) env = Some link_text"
  unfolding link_cmd_def in_makefile_def
  by (simp add: variables_5 [OF assms] expand_link_line_5 del: expand.simps)

lemma getenv_other: "v \<noteq> w \<Longrightarrow> getenv (env(w := b)) v = getenv env v"
  by (simp add: getenv_def)

text \<open>
  Claim C5, as the Makefile has it. The make variable \<open>ASL\<close> is the environment variable
  \<open>ASL_BUILD\<close> and \<open>BOOST\<close> is \<open>BOOST_HEADER\<close>. For a value of \<open>ASL_BUILD\<close> that is plain
  text (make expands references in it like in any other variable): when it is not
  empty the compiler flags are \<open>-Wall -Wextra -O3 -I\<close> followed by the value; when it is
  empty or unset the flags are \<open>-Wall -Wextra -O3\<close> and have no \<open>-I\<close> in them. The
  variable \<open>BOOST\<close> is used by no rule of this Makefile: whatever \<open>BOOST_HEADER\<close> is set
  to, the flags and the compile command are the same.
\<close>

theorem cflags_from_environment:
  "(plain (getenv env ''ASL_BUILD'') \<longrightarrow>
      ASL (5 + k) env = Some (getenv env ''ASL_BUILD'') \<and>
      (getenv env ''ASL_BUILD'' \<noteq> [] \<longrightarrow>
         CFLAGS (5 + k) env = Some (''-Wall -Wextra -O3 -I'' @ getenv env ''ASL_BUILD'') \<and>
         flags_contain (''-I'' @ getenv env ''ASL_BUILD'') (5 + k) env) \<and>
      (getenv env ''ASL_BUILD'' = [] \<longrightarrow>
         CFLAGS (5 + k) env = Some ''-Wall -Wextra -O3'' \<and>
         \<not> flags_contain ''-I'' (5 + k) env) \<and>
      CFLAGS (5 + k) (env(''BOOST_HEADER'' := b)) = CFLAGS (5 + k) env \<and>
      compile_cmd (5 + k) (env(''BOOST_HEADER'' := b)) = compile_cmd (5 + k) env) \<and>
   (plain (getenv env ''ASL_BUILD'') \<and> plain (getenv env ''BOOST_HEADER'') \<longrightarrow>
      BOOST (5 + k) env = Some (getenv env ''BOOST_HEADER''))"
proof (intro conjI impI)
  assume p: "plain (getenv env ''ASL_BUILD'')"
  then have p': "plain (getenv (env(''BOOST_HEADER'' := b)) ''ASL_BUILD'')"
    by (simp add: getenv_other)
  show "ASL (5 + k) env = Some (getenv env ''ASL_BUILD'')"
    by (rule ASL_plain [OF p])
  show "CFLAGS (5 + k) (env(''BOOST_HEADER'' := b)) = CFLAGS (5 + k) env"
    by (simp add: CFLAGS_plain [OF p] CFLAGS_plain [OF p'] getenv_other)
  show "compile_cmd (5 + k) (env(''BOOST_HEADER'' := b)) = compile_cmd (5 + k) env"
    by (simp add: compile_cmd_plain [OF p] compile_cmd_plain [OF p'] compile_text_def
        getenv_other)
  {
    assume n: "getenv env ''ASL_BUILD'' \<noteq> []"
    show "CFLAGS (5 + k) env = Some (''-Wall -Wextra -O3 -I'' @ getenv env ''ASL_BUILD'')"
      using n by (simp add: CFLAGS_plain [OF p])
    have "sublist (''-I'' @ getenv env ''ASL_BUILD'')
        (''-Wall -Wextra -O3 '' @ (''-I'' @ getenv env ''ASL_BUILD'') @ [])"
      by (rule sublist_appendI)
    then show "flags_contain (''-I'' @ getenv env ''ASL_BUILD'') (5 + k) env"
      using n by (simp add: flags_contain_def CFLAGS_plain [OF p])
  }
  {
    assume e: "getenv env ''ASL_BUILD'' = []"
    show "CFLAGS (5 + k) env = Some ''-Wall -Wextra -O3''"
      using e by (simp add: CFLAGS_plain [OF p])
    show "\<not> flags_contain ''-I'' (5 + k) env"
      using e by (simp add: flags_contain_def CFLAGS_plain [OF p] sublist_Cons_right)
  }
next
  assume "plain (getenv env ''ASL_BUILD'') \<and> plain (getenv env ''BOOST_HEADER'')"
  then show "BOOST (5 + k) env = Some (getenv env ''BOOST_HEADER'')"
    using BOOST_plain by blast
qed

theorem cflags_from_environment_witness:
  "plain (getenv env_asl ''ASL_BUILD'') \<and> getenv env_asl ''ASL_BUILD'' \<noteq> [] \<and>
   CFLAGS 5 env_asl = Some ''-Wall -Wextra -O3 -I/opt/asl/sys.x86_64.Linux'' \<and>
   plain (getenv env_none ''ASL_BUILD'') \<and> getenv env_none ''ASL_BUILD'' = [] \<and>
   CFLAGS 5 env_none = Some ''-Wall -Wextra -O3'' \<and>
   compile_cmd 5 (env_none(''BOOST_HEADER'' := Some ''/opt/boost'')) = compile_cmd 5 env_none \<and>
   plain (getenv env_boost ''BOOST_HEADER'') \<and>
   BOOST 5 env_boost = Some ''/opt/boost''"
proof -
  have zero: "(5::nat) + 0 = 5"
    by simp
  have a: "getenv env_asl ''ASL_BUILD'' = ''/opt/asl/sys.x86_64.Linux''"
    by (simp add: getenv_def env_asl_def)
  have n: "getenv env_none ''ASL_BUILD'' = []"
    by (simp add: getenv_def env_none_def)
  have b: "getenv env_boost ''ASL_BUILD'' = []" "getenv env_boost ''BOOST_HEADER'' = ''/opt/boost''"
    by (simp_all add: getenv_def env_boost_def)
  have pa: "plain (getenv env_asl ''ASL_BUILD'')" and pn: "plain (getenv env_none ''ASL_BUILD'')"
    and pb: "plain (getenv env_boost ''ASL_BUILD'')" "plain (getenv env_boost ''BOOST_HEADER'')"
    by (simp_all add: a n b plain_def)
  note A = cflags_from_environment [where env = env_asl and k = 0, unfolded zero]
  note N = cflags_from_environment
    [where env = env_none and k = 0 and b = "Some ''/opt/boost''", unfolded zero]
  note B = cflags_from_environment [where env = env_boost and k = 0, unfolded zero]
  from A pa a have 1: "CFLAGS 5 env_asl = Some ''-Wall -Wextra -O3 -I/opt/asl/sys.x86_64.Linux''"
    by simp
  from N pn n have 2: "CFLAGS 5 env_none = Some ''-Wall -Wextra -O3''"
    and 3: "compile_cmd 5 (env_none(''BOOST_HEADER'' := Some ''/opt/boost'')) = compile_cmd 5 env_none"
    by simp_all
  from B pb b have 4: "BOOST 5 env_boost = Some ''/opt/boost''"
    by simp
  from pa pn pb a n 1 2 3 4 show ?thesis by simp
qed

text \<open>Claim C5 as first stated has \<open>BOOST_HEADER\<close> add its path to the header search
  path of the compilation. It does not: with \<open>BOOST_HEADER=/opt/boost\<close> the path occurs
  nowhere in the compile command.\<close>

theorem boost_header_not_in_compile_cmd:
  "env_boost ''BOOST_HEADER'' = Some ''/opt/boost'' \<and>
   compile_cmd 5 env_boost =
     Some ''gcc -c -Wall -Wextra -O3 -fPIC cubic_roots.c -o cubic_roots.o'' \<and>
   \<not> sublist ''/opt/boost'' ''gcc -c -Wall -Wextra -O3 -fPIC cubic_roots.c -o cubic_roots.o''"
proof -
  have e: "getenv env_boost ''ASL_BUILD'' = []"
    by (simp add: getenv_def env_boost_def)
  then have p: "plain (getenv env_boost ''ASL_BUILD'')"
    by (simp add: plain_def)
  have "compile_cmd (5 + 0) env_boost = Some (compile_text env_boost)"
    by (rule compile_cmd_plain [OF p])
  then have "compile_cmd 5 env_boost =
      Some ''gcc -c -Wall -Wextra -O3 -fPIC cubic_roots.c -o cubic_roots.o''"
    by (simp add: compile_text_def e)
  moreover have "env_boost ''BOOST_HEADER'' = Some ''/opt/boost''"
    by (simp add: env_boost_def)
  moreover have "\<not> sublist ''/opt/boost''
      ''gcc -c -Wall -Wextra -O3 -fPIC cubic_roots.c -o cubic_roots.o''"
    by (simp add: sublist_Cons_right)
  ultimately show ?thesis by simp
qed

text \<open>References in the value of \<open>ASL_BUILD\<close> are expanded, as make does: with
  \<open>ASL_BUILD=/opt/$(CC)/asl\<close> the flag is \<open>-I/opt/gcc/asl\<close>, and a value that refers to
  \<open>BOOST_HEADER\<close> brings that variable into the compile command. This is why the
  properties above are stated for plain values.\<close>

lemma reference_in_ASL_BUILD_is_expanded:
  "CFLAGS 6 env_asl_via_cc = Some ''-Wall -Wextra -O3 -I/opt/gcc/asl''"
  by (simp add: CFLAGS_def in_makefile_def variables_def eval_nat_numeral raw_value_def
      Makefile_in_def getenv_def env_asl_via_cc_def name_char_def)

lemma BOOST_HEADER_through_ASL_BUILD:
  "compile_cmd 6 env_asl_via_boost =
     Some ''gcc -c -Wall -Wextra -O3 -I/opt/boost -fPIC cubic_roots.c -o cubic_roots.o''"
  by (simp add: compile_cmd_def compile_line_def in_makefile_def variables_def
      eval_nat_numeral raw_value_def Makefile_in_def getenv_def env_asl_via_boost_def
      name_char_def)

subsection \<open>What make runs\<close>

lemma find_rules:
  "find (\<lambda>r. target r = ''cubic_roots.c'') makefile = None"
  "find (\<lambda>r. target r = ''cubic_roots.o'') makefile = Some rule_o"
  "find (\<lambda>r. target r = ''cubic_roots.so'') makefile = Some rule_so"
  "find (\<lambda>r. target r = ''ALL'') makefile = Some rule_ALL"
  by (simp_all add: makefile_def rule_ALL_def rule_o_def rule_so_def rule_clean_def)

lemma default_goal: "target (hd makefile) = ''ALL''"
  by (simp add: makefile_def rule_ALL_def)

lemma prereqs_rules:
  "prereqs rule_o = [''cubic_roots.c'']"
  "prereqs rule_so = [''cubic_roots.o'']"
  "prereqs rule_ALL = [''cubic_roots.so'']"
  by (simp_all add: rule_o_def rule_so_def rule_ALL_def)

lemma recipe_rules:
  "recipe rule_o = [compile_line]"
  "recipe rule_so = [link_line]"
  "recipe rule_ALL = []"
  by (simp_all add: rule_o_def rule_so_def rule_ALL_def)

lemma run_recipe_o:
  assumes "xp compile_line = Some cc"
  shows "run_recipe ok xp rule_o st =
     (if ok cc
      then (None, st\<lparr>executed := executed st @ [cc], clock := Suc (clock st),
                      mtime := (mtime st)(''cubic_roots.o'' \<mapsto> Suc (clock st))\<rparr>)
      else (Some (Recipe_failed cc),
            st\<lparr>executed := executed st @ [cc], clock := Suc (clock st)\<rparr>))"
  using assms by (simp add: run_recipe_def rule_o_def)

lemma run_recipe_so:
  assumes "xp link_line = Some lc"
  shows "run_recipe ok xp rule_so st =
     (if ok lc
      then (None, st\<lparr>executed := executed st @ [lc], clock := Suc (clock st),
                      mtime := (mtime st)(''cubic_roots.so'' \<mapsto> Suc (clock st))\<rparr>)
      else (Some (Recipe_failed lc),
            st\<lparr>executed := executed st @ [lc], clock := Suc (clock st)\<rparr>))"
  using assms by (simp add: run_recipe_def rule_so_def)

lemma run_recipe_ALL: "run_recipe ok xp rule_ALL st = (None, st)"
  by (simp add: run_recipe_def rule_ALL_def)

lemma out_of_date_o: "out_of_date fs rule_o = stale fs ''cubic_roots.o'' ''cubic_roots.c''"
  by (simp add: out_of_date_def stale_def rule_o_def split: option.splits)

lemma out_of_date_so: "out_of_date fs rule_so = stale fs ''cubic_roots.so'' ''cubic_roots.o''"
  by (simp add: out_of_date_def stale_def rule_so_def split: option.splits)

lemma update_o:
  "update (Suc (Suc n)) ok xp builtin makefile ''cubic_roots.o'' st =
     (if builtin (mtime st) ''cubic_roots.c'' then (Some (Builtin_rule ''cubic_roots.c''), st)
      else if mtime st ''cubic_roots.c'' = None then (Some (No_rule ''cubic_roots.c''), st)
      else if stale (mtime st) ''cubic_roots.o'' ''cubic_roots.c''
      then run_recipe ok xp rule_o st
      else (None, st))"
  by (simp add: find_rules prereqs_rules recipe_rules out_of_date_o)

lemma update_so:
  "update (Suc (Suc (Suc n))) ok xp builtin makefile ''cubic_roots.so'' st =
     (case update (Suc (Suc n)) ok xp builtin makefile ''cubic_roots.o'' st of
        (Some e, st1) \<Rightarrow> (Some e, st1)
      | (None, st1) \<Rightarrow>
          if stale (mtime st1) ''cubic_roots.so'' ''cubic_roots.o''
          then run_recipe ok xp rule_so st1 else (None, st1))"
  by (simp add: find_rules prereqs_rules recipe_rules out_of_date_so
      split: prod.splits option.splits)

lemma update_ALL:
  "update (Suc (Suc (Suc (Suc n)))) ok xp builtin makefile ''ALL'' st =
     (if builtin (mtime st) ''ALL'' then (Some (Builtin_rule ''ALL''), st)
      else update (Suc (Suc (Suc n))) ok xp builtin makefile ''cubic_roots.so'' st)"
  by (simp add: find_rules prereqs_rules recipe_rules run_recipe_ALL
      split: prod.splits option.splits)

lemma find_makefiles:
  "\<not> p ''Makefile'' \<Longrightarrow> \<not> p ''../../../Makefile.in'' \<Longrightarrow> find p makefiles = None"
  by (simp add: makefiles_def)

text \<open>Under the standing conditions a run of make is the object rule followed by the
  shared-object rule.\<close>

lemma gnu_make_unfold:
  assumes "plain (getenv env ''ASL_BUILD'')" "no_builtin builtin (mtime st)"
    "mtime st ''cubic_roots.c'' = Some tc"
  shows "gnu_make (5 + k) env ok builtin st =
     (case (if stale (mtime st) ''cubic_roots.o'' ''cubic_roots.c''
            then (if ok (compile_text env)
                  then (None, st\<lparr>executed := executed st @ [compile_text env],
                                   clock := Suc (clock st),
                                   mtime := (mtime st)(''cubic_roots.o'' \<mapsto> Suc (clock st))\<rparr>)
                  else (Some (Recipe_failed (compile_text env)),
                        st\<lparr>executed := executed st @ [compile_text env],
                           clock := Suc (clock st)\<rparr>))
            else (None, st)) of
        (Some e, st1) \<Rightarrow> (Some e, st1)
      | (None, st1) \<Rightarrow>
          if stale (mtime st1) ''cubic_roots.so'' ''cubic_roots.o''
          then (if ok link_text
                then (None, st1\<lparr>executed := executed st1 @ [link_text],
                                  clock := Suc (clock st1),
                                  mtime := (mtime st1)(''cubic_roots.so'' \<mapsto> Suc (clock st1))\<rparr>)
                else (Some (Recipe_failed link_text),
                      st1\<lparr>executed := executed st1 @ [link_text], clock := Suc (clock st1)\<rparr>))
          else (None, st1))"
proof -
  let ?vt = "Makefile_in
      (''CFLAGS'' \<mapsto> (if getenv env ''ASL_BUILD'' = [] then ''-Wall -Wextra -O3''
                         else ''-Wall -Wextra -O3 -I$(ASL)''),
       ''LDFLAGS'' \<mapsto> ''-shared -lm'')"
  let ?xp = "expand (5 + k) env ?vt"
  have c: "?xp compile_line = Some (compile_text env)"
    by (rule expand_compile_line [OF assms(1)])
  have l: "?xp link_line = Some link_text"
    by (rule expand_link_line_5)
  have b: "\<not> builtin (mtime st) ''Makefile''" "\<not> builtin (mtime st) ''../../../Makefile.in''"
    "\<not> builtin (mtime st) ''ALL''" "\<not> builtin (mtime st) ''cubic_roots.c''"
    using assms(2) by (simp_all add: no_builtin_def)
  have "gnu_make (5 + k) env ok builtin st =
      update (5 + k) ok ?xp builtin makefile ''ALL'' st"
    by (simp add: gnu_make_def variables_5 [OF assms(1)]
        find_makefiles [of "builtin (mtime st)", OF b(1,2)]
        default_goal del: expand.simps update.simps)
  also have "\<dots> = update (Suc (Suc (Suc (Suc (Suc k))))) ok ?xp builtin makefile ''ALL'' st"
    by (simp only: five)
  also have "\<dots> =
      (case update (Suc (Suc (Suc k))) ok ?xp builtin makefile ''cubic_roots.o'' st of
         (Some e, st1) \<Rightarrow> (Some e, st1)
       | (None, st1) \<Rightarrow>
           if stale (mtime st1) ''cubic_roots.so'' ''cubic_roots.o''
           then run_recipe ok ?xp rule_so st1 else (None, st1))"
    using b(3) by (simp only: update_ALL update_so if_False)
  finally show ?thesis
    using b(4) assms(3)
    by (simp add: update_o run_recipe_o [where xp = "?xp", OF c]
        run_recipe_so [where xp = "?xp", OF l] del: expand.simps update.simps)
qed

lemma texts_differ: "compile_text env \<noteq> link_text"
  by (simp add: compile_text_def link_text_def)

lemma gnu_make_rebuilds_both:
  assumes "plain (getenv env ''ASL_BUILD'')" "no_builtin builtin (mtime st)"
    "mtime st ''cubic_roots.c'' = Some tc"
    "stale (mtime st) ''cubic_roots.o'' ''cubic_roots.c''" "not_future st ''cubic_roots.so''"
    "ok (compile_text env)" "ok link_text"
  shows "gnu_make (5 + k) env ok builtin st =
    (None, st\<lparr>mtime := (mtime st)(''cubic_roots.o'' \<mapsto> Suc (clock st),
                                   ''cubic_roots.so'' \<mapsto> Suc (Suc (clock st))),
              clock := Suc (Suc (clock st)),
              executed := executed st @ [compile_text env, link_text]\<rparr>)"
  using assms(4-7)
  by (auto simp: gnu_make_unfold [OF assms(1-3)] stale_def not_future_def
      split: option.splits)

lemma gnu_make_compile_fails:
  assumes "plain (getenv env ''ASL_BUILD'')" "no_builtin builtin (mtime st)"
    "mtime st ''cubic_roots.c'' = Some tc"
    "stale (mtime st) ''cubic_roots.o'' ''cubic_roots.c''" "\<not> ok (compile_text env)"
  shows "gnu_make (5 + k) env ok builtin st =
    (Some (Recipe_failed (compile_text env)),
     st\<lparr>executed := executed st @ [compile_text env], clock := Suc (clock st)\<rparr>)"
  using assms(4-5) by (simp add: gnu_make_unfold [OF assms(1-3)])

lemma gnu_make_links_only:
  assumes "plain (getenv env ''ASL_BUILD'')" "no_builtin builtin (mtime st)"
    "mtime st ''cubic_roots.c'' = Some tc"
    "\<not> stale (mtime st) ''cubic_roots.o'' ''cubic_roots.c''"
    "stale (mtime st) ''cubic_roots.so'' ''cubic_roots.o''" "ok link_text"
  shows "gnu_make (5 + k) env ok builtin st =
    (None, st\<lparr>executed := executed st @ [link_text], clock := Suc (clock st),
              mtime := (mtime st)(''cubic_roots.so'' \<mapsto> Suc (clock st))\<rparr>)"
  using assms(4-6) by (simp add: gnu_make_unfold [OF assms(1-3)])

lemma gnu_make_up_to_date:
  assumes "plain (getenv env ''ASL_BUILD'')" "no_builtin builtin (mtime st)"
    "mtime st ''cubic_roots.c'' = Some tc"
    "\<not> stale (mtime st) ''cubic_roots.o'' ''cubic_roots.c''"
    "\<not> stale (mtime st) ''cubic_roots.so'' ''cubic_roots.o''"
  shows "gnu_make (5 + k) env ok builtin st = (None, st)"
  using assms(4-5) by (simp add: gnu_make_unfold [OF assms(1-3)])

lemma gnu_make_compile_only_when:
  assumes "plain (getenv env ''ASL_BUILD'')" "no_builtin builtin (mtime st)"
    "mtime st ''cubic_roots.c'' = Some tc"
    "compile_text env \<in> set (new_cmds st (snd (gnu_make (5 + k) env ok builtin st)))"
  shows "stale (mtime st) ''cubic_roots.o'' ''cubic_roots.c''"
  using assms(4) texts_differ [of env]
  by (auto simp: gnu_make_unfold [OF assms(1-3)] new_cmds_def split: if_splits)

lemma gnu_make_link_only_when:
  assumes "plain (getenv env ''ASL_BUILD'')" "no_builtin builtin (mtime st)"
    "mtime st ''cubic_roots.c'' = Some tc"
    "link_text \<in> set (new_cmds st (snd (gnu_make (5 + k) env ok builtin st)))"
  shows "stale (mtime st) ''cubic_roots.so'' ''cubic_roots.o'' \<or>
    compile_text env \<in> set (new_cmds st (snd (gnu_make (5 + k) env ok builtin st)))"
  using assms(4) texts_differ [of env]
  by (auto simp: gnu_make_unfold [OF assms(1-3)] new_cmds_def split: if_splits)

lemma gnu_make_has_fuel:
  assumes "plain (getenv env ''ASL_BUILD'')" "no_builtin builtin (mtime st)"
    "mtime st ''cubic_roots.c'' = Some tc"
  shows "fst (gnu_make (5 + k) env ok builtin st) \<noteq> Some Out_of_fuel"
  by (simp add: gnu_make_unfold [OF assms(1-3)])

text \<open>Where a built-in rule applies the model stops and says so: with a file \<open>ALL.c\<close>
  in the directory, make would build a program \<open>ALL\<close> from it.\<close>

lemma builtin_rule_for_ALL:
  "gnu_make 5 env_none all_ok program_rules st_with_ALL_c =
     (Some (Builtin_rule ''ALL''), st_with_ALL_c)"
proof -
  have p: "plain (getenv env_none ''ASL_BUILD'')"
    by (simp add: plain_def getenv_def env_none_def)
  have m: "\<not> program_rules (mtime st_with_ALL_c) ''Makefile''"
    "\<not> program_rules (mtime st_with_ALL_c) ''../../../Makefile.in''"
    and a: "program_rules (mtime st_with_ALL_c) ''ALL''"
    by (simp_all add: program_rules_def st_with_ALL_c_def)
  have e: "(5::nat) = Suc (Suc (Suc (Suc (Suc 0))))"
    by simp
  show ?thesis
    unfolding e gnu_make_def
    using a
    by (simp add: variables_plain [OF p]
        find_makefiles [of "program_rules (mtime st_with_ALL_c)", OF m]
        default_goal update_ALL del: expand.simps update.simps)
qed

text \<open>
  Claim C6. \<open>make\<close> with no argument works on \<open>ALL\<close>, which asks for \<open>cubic_roots.so\<close>.
  The recipes become \<open>gcc -c -Wall -Wextra -O3 ... -fPIC cubic_roots.c -o cubic_roots.o\<close>
  and \<open>gcc -shared -lm cubic_roots.o -o cubic_roots.so\<close>. With the source present, a
  plain value of \<open>ASL_BUILD\<close> and no built-in rule in the way, the run is decided by the
  file times alone. When \<open>cubic_roots.o\<close> is missing or older than \<open>cubic_roots.c\<close>, make
  compiles and then links, and both files exist afterwards; when the compilation fails,
  make stops without linking. When the object is up to date and \<open>cubic_roots.so\<close> is
  missing or older than it, make only links. When both are up to date make runs nothing.
  So the compilation runs only when the object is stale against the source, and the link
  only when the shared object is stale against the object or the object has just been
  compiled. Five levels of fuel are enough: the result is never \<open>Out_of_fuel\<close>.
\<close>

theorem make_builds_cubic_roots_so:
  "target (hd makefile) = ''ALL'' \<and> prereqs rule_ALL = [''cubic_roots.so''] \<and>
   compile_text env =
     ''gcc -c -Wall -Wextra -O3'' @
     (if getenv env ''ASL_BUILD'' = [] then [] else '' -I'' @ getenv env ''ASL_BUILD'') @
     '' -fPIC cubic_roots.c -o cubic_roots.o'' \<and>
   link_text = ''gcc -shared -lm cubic_roots.o -o cubic_roots.so'' \<and>
   (plain (getenv env ''ASL_BUILD'') \<longrightarrow>
      compile_cmd (5 + k) env = Some (compile_text env) \<and>
      link_cmd (5 + k) env = Some link_text) \<and>
   (plain (getenv env ''ASL_BUILD'') \<and> no_builtin builtin (mtime st) \<and>
    mtime st ''cubic_roots.c'' = Some tc \<longrightarrow>
      fst (gnu_make (5 + k) env ok builtin st) \<noteq> Some Out_of_fuel \<and>
      (stale (mtime st) ''cubic_roots.o'' ''cubic_roots.c'' \<and>
       not_future st ''cubic_roots.so'' \<and> ok (compile_text env) \<and> ok link_text \<longrightarrow>
         gnu_make (5 + k) env ok builtin st =
           (None, st\<lparr>mtime := (mtime st)(''cubic_roots.o'' \<mapsto> Suc (clock st),
                                          ''cubic_roots.so'' \<mapsto> Suc (Suc (clock st))),
                     clock := Suc (Suc (clock st)),
                     executed := executed st @ [compile_text env, link_text]\<rparr>)) \<and>
      (stale (mtime st) ''cubic_roots.o'' ''cubic_roots.c'' \<and> \<not> ok (compile_text env) \<longrightarrow>
         gnu_make (5 + k) env ok builtin st =
           (Some (Recipe_failed (compile_text env)),
            st\<lparr>executed := executed st @ [compile_text env], clock := Suc (clock st)\<rparr>)) \<and>
      (\<not> stale (mtime st) ''cubic_roots.o'' ''cubic_roots.c'' \<and>
       stale (mtime st) ''cubic_roots.so'' ''cubic_roots.o'' \<and> ok link_text \<longrightarrow>
         gnu_make (5 + k) env ok builtin st =
           (None, st\<lparr>executed := executed st @ [link_text], clock := Suc (clock st),
                     mtime := (mtime st)(''cubic_roots.so'' \<mapsto> Suc (clock st))\<rparr>)) \<and>
      (\<not> stale (mtime st) ''cubic_roots.o'' ''cubic_roots.c'' \<and>
       \<not> stale (mtime st) ''cubic_roots.so'' ''cubic_roots.o'' \<longrightarrow>
         gnu_make (5 + k) env ok builtin st = (None, st)) \<and>
      (compile_text env \<in> set (new_cmds st (snd (gnu_make (5 + k) env ok builtin st))) \<longrightarrow>
         stale (mtime st) ''cubic_roots.o'' ''cubic_roots.c'') \<and>
      (link_text \<in> set (new_cmds st (snd (gnu_make (5 + k) env ok builtin st))) \<longrightarrow>
         stale (mtime st) ''cubic_roots.so'' ''cubic_roots.o'' \<or>
         compile_text env \<in> set (new_cmds st (snd (gnu_make (5 + k) env ok builtin st)))))"
proof -
  have texts: "compile_text env =
     ''gcc -c -Wall -Wextra -O3'' @
     (if getenv env ''ASL_BUILD'' = [] then [] else '' -I'' @ getenv env ''ASL_BUILD'') @
     '' -fPIC cubic_roots.c -o cubic_roots.o'' \<and>
     link_text = ''gcc -shared -lm cubic_roots.o -o cubic_roots.so''"
    by (simp add: compile_text_def link_text_def)
  have cmds: "plain (getenv env ''ASL_BUILD'') \<longrightarrow>
      compile_cmd (5 + k) env = Some (compile_text env) \<and>
      link_cmd (5 + k) env = Some link_text"
    using compile_cmd_plain link_cmd_plain by blast
  have run: "fst (gnu_make (5 + k) env ok builtin st) \<noteq> Some Out_of_fuel \<and>
      (stale (mtime st) ''cubic_roots.o'' ''cubic_roots.c'' \<and>
       not_future st ''cubic_roots.so'' \<and> ok (compile_text env) \<and> ok link_text \<longrightarrow>
         gnu_make (5 + k) env ok builtin st =
           (None, st\<lparr>mtime := (mtime st)(''cubic_roots.o'' \<mapsto> Suc (clock st),
                                          ''cubic_roots.so'' \<mapsto> Suc (Suc (clock st))),
                     clock := Suc (Suc (clock st)),
                     executed := executed st @ [compile_text env, link_text]\<rparr>)) \<and>
      (stale (mtime st) ''cubic_roots.o'' ''cubic_roots.c'' \<and> \<not> ok (compile_text env) \<longrightarrow>
         gnu_make (5 + k) env ok builtin st =
           (Some (Recipe_failed (compile_text env)),
            st\<lparr>executed := executed st @ [compile_text env], clock := Suc (clock st)\<rparr>)) \<and>
      (\<not> stale (mtime st) ''cubic_roots.o'' ''cubic_roots.c'' \<and>
       stale (mtime st) ''cubic_roots.so'' ''cubic_roots.o'' \<and> ok link_text \<longrightarrow>
         gnu_make (5 + k) env ok builtin st =
           (None, st\<lparr>executed := executed st @ [link_text], clock := Suc (clock st),
                     mtime := (mtime st)(''cubic_roots.so'' \<mapsto> Suc (clock st))\<rparr>)) \<and>
      (\<not> stale (mtime st) ''cubic_roots.o'' ''cubic_roots.c'' \<and>
       \<not> stale (mtime st) ''cubic_roots.so'' ''cubic_roots.o'' \<longrightarrow>
         gnu_make (5 + k) env ok builtin st = (None, st)) \<and>
      (compile_text env \<in> set (new_cmds st (snd (gnu_make (5 + k) env ok builtin st))) \<longrightarrow>
         stale (mtime st) ''cubic_roots.o'' ''cubic_roots.c'') \<and>
      (link_text \<in> set (new_cmds st (snd (gnu_make (5 + k) env ok builtin st))) \<longrightarrow>
         stale (mtime st) ''cubic_roots.so'' ''cubic_roots.o'' \<or>
         compile_text env \<in> set (new_cmds st (snd (gnu_make (5 + k) env ok builtin st))))"
    if h: "plain (getenv env ''ASL_BUILD'') \<and> no_builtin builtin (mtime st) \<and>
      mtime st ''cubic_roots.c'' = Some tc"
  proof -
    from h have p: "plain (getenv env ''ASL_BUILD'')" and b: "no_builtin builtin (mtime st)"
      and c: "mtime st ''cubic_roots.c'' = Some tc" by simp_all
    show ?thesis
      using gnu_make_has_fuel [OF p b c, of k ok]
        gnu_make_rebuilds_both [OF p b c, of ok k]
        gnu_make_compile_fails [OF p b c, of ok k]
        gnu_make_links_only [OF p b c, of ok k]
        gnu_make_up_to_date [OF p b c, of k ok]
        gnu_make_compile_only_when [OF p b c, of k ok]
        gnu_make_link_only_when [OF p b c, of k ok]
      by blast
  qed
  from default_goal prereqs_rules(3) texts cmds run show ?thesis by blast
qed

theorem make_builds_cubic_roots_so_witness:
  "plain (getenv env_none ''ASL_BUILD'') \<and>
   no_builtin program_rules (mtime st_fresh) \<and>
   gnu_make 5 env_none all_ok program_rules st_fresh =
     (None, \<lparr>mtime = [''cubic_roots.c'' \<mapsto> 1, ''cubic_roots.o'' \<mapsto> 6, ''cubic_roots.so'' \<mapsto> 7],
             clock = 7,
             executed = [''gcc -c -Wall -Wextra -O3 -fPIC cubic_roots.c -o cubic_roots.o'',
                         ''gcc -shared -lm cubic_roots.o -o cubic_roots.so'']\<rparr>) \<and>
   stale (mtime st_touched) ''cubic_roots.o'' ''cubic_roots.c'' \<and>
   gnu_make 5 env_none all_ok program_rules st_touched =
     (None, \<lparr>mtime = [''cubic_roots.c'' \<mapsto> 10, ''cubic_roots.o'' \<mapsto> 11, ''cubic_roots.so'' \<mapsto> 12],
             clock = 12,
             executed = [''gcc -c -Wall -Wextra -O3 -fPIC cubic_roots.c -o cubic_roots.o'',
                         ''gcc -shared -lm cubic_roots.o -o cubic_roots.so'']\<rparr>) \<and>
   compile_text env_none \<in>
     set (new_cmds st_touched (snd (gnu_make 5 env_none all_ok program_rules st_touched))) \<and>
   link_text \<in>
     set (new_cmds st_touched (snd (gnu_make 5 env_none all_ok program_rules st_touched))) \<and>
   gnu_make 5 env_none gcc_broken program_rules st_touched =
     (Some (Recipe_failed ''gcc -c -Wall -Wextra -O3 -fPIC cubic_roots.c -o cubic_roots.o''),
      \<lparr>mtime = [''cubic_roots.c'' \<mapsto> 10, ''cubic_roots.o'' \<mapsto> 6, ''cubic_roots.so'' \<mapsto> 7],
       clock = 11,
       executed = [''gcc -c -Wall -Wextra -O3 -fPIC cubic_roots.c -o cubic_roots.o'']\<rparr>) \<and>
   gnu_make 5 env_none all_ok program_rules st_unlinked =
     (None, \<lparr>mtime = [''cubic_roots.c'' \<mapsto> 1, ''cubic_roots.o'' \<mapsto> 6, ''cubic_roots.so'' \<mapsto> 7],
             clock = 7,
             executed = [''gcc -shared -lm cubic_roots.o -o cubic_roots.so'']\<rparr>) \<and>
   gnu_make 5 env_none all_ok program_rules st_built = (None, st_built)"
proof -
  have zero: "(5::nat) + 0 = 5"
    by simp
  have e: "getenv env_none ''ASL_BUILD'' = []"
    by (simp add: getenv_def env_none_def)
  have p: "plain (getenv env_none ''ASL_BUILD'')"
    by (simp add: e plain_def)
  have ct: "compile_text env_none = ''gcc -c -Wall -Wextra -O3 -fPIC cubic_roots.c -o cubic_roots.o''"
    by (simp add: compile_text_def e)
  have lt: "link_text = ''gcc -shared -lm cubic_roots.o -o cubic_roots.so''"
    by (simp add: link_text_def)
  have oks: "all_ok (compile_text env_none)" "all_ok link_text" "\<not> gcc_broken (compile_text env_none)"
    by (simp_all add: all_ok_def gcc_broken_def)
  have nb: "no_builtin program_rules (mtime st_fresh)"
    "no_builtin program_rules (mtime st_touched)"
    "no_builtin program_rules (mtime st_unlinked)"
    "no_builtin program_rules (mtime st_built)"
    by (simp_all add: no_builtin_def program_rules_def st_fresh_def st_touched_def
        st_unlinked_def st_built_def)
  have src: "mtime st_fresh ''cubic_roots.c'' = Some 1"
    "mtime st_touched ''cubic_roots.c'' = Some 10"
    "mtime st_unlinked ''cubic_roots.c'' = Some 1"
    "mtime st_built ''cubic_roots.c'' = Some 1"
    by (simp_all add: st_fresh_def st_touched_def st_unlinked_def st_built_def)
  have fresh: "stale (mtime st_fresh) ''cubic_roots.o'' ''cubic_roots.c'' \<and>
      not_future st_fresh ''cubic_roots.so''"
    by (simp add: stale_def not_future_def st_fresh_def)
  have touched: "stale (mtime st_touched) ''cubic_roots.o'' ''cubic_roots.c'' \<and>
      not_future st_touched ''cubic_roots.so''"
    by (simp add: stale_def not_future_def st_touched_def)
  have unlinked: "\<not> stale (mtime st_unlinked) ''cubic_roots.o'' ''cubic_roots.c'' \<and>
      stale (mtime st_unlinked) ''cubic_roots.so'' ''cubic_roots.o''"
    by (simp add: stale_def st_unlinked_def)
  have built: "\<not> stale (mtime st_built) ''cubic_roots.o'' ''cubic_roots.c'' \<and>
      \<not> stale (mtime st_built) ''cubic_roots.so'' ''cubic_roots.o''"
    by (simp add: stale_def st_built_def)
  note F = make_builds_cubic_roots_so
    [where env = env_none and k = 0 and ok = all_ok and builtin = program_rules
      and st = st_fresh and tc = 1, unfolded zero]
  note T = make_builds_cubic_roots_so
    [where env = env_none and k = 0 and ok = all_ok and builtin = program_rules
      and st = st_touched and tc = 10, unfolded zero]
  note G = make_builds_cubic_roots_so
    [where env = env_none and k = 0 and ok = gcc_broken and builtin = program_rules
      and st = st_touched and tc = 10, unfolded zero]
  note U = make_builds_cubic_roots_so
    [where env = env_none and k = 0 and ok = all_ok and builtin = program_rules
      and st = st_unlinked and tc = 1, unfolded zero]
  note B = make_builds_cubic_roots_so
    [where env = env_none and k = 0 and ok = all_ok and builtin = program_rules
      and st = st_built and tc = 1, unfolded zero]
  from F p nb(1) src(1) fresh oks
  have f1: "gnu_make 5 env_none all_ok program_rules st_fresh =
      (None, st_fresh\<lparr>mtime := (mtime st_fresh)(''cubic_roots.o'' \<mapsto> Suc (clock st_fresh),
                                        ''cubic_roots.so'' \<mapsto> Suc (Suc (clock st_fresh))),
                     clock := Suc (Suc (clock st_fresh)),
                     executed := executed st_fresh @ [compile_text env_none, link_text]\<rparr>)"
    by blast
  from T p nb(2) src(2) touched oks
  have f2: "gnu_make 5 env_none all_ok program_rules st_touched =
      (None, st_touched\<lparr>mtime := (mtime st_touched)(''cubic_roots.o'' \<mapsto> Suc (clock st_touched),
                                        ''cubic_roots.so'' \<mapsto> Suc (Suc (clock st_touched))),
                     clock := Suc (Suc (clock st_touched)),
                     executed := executed st_touched @ [compile_text env_none, link_text]\<rparr>)"
    by blast
  from G p nb(2) src(2) touched oks
  have f3: "gnu_make 5 env_none gcc_broken program_rules st_touched =
      (Some (Recipe_failed (compile_text env_none)),
       st_touched\<lparr>executed := executed st_touched @ [compile_text env_none],
                  clock := Suc (clock st_touched)\<rparr>)"
    by blast
  from U p nb(3) src(3) unlinked oks
  have f4: "gnu_make 5 env_none all_ok program_rules st_unlinked =
      (None, st_unlinked\<lparr>executed := executed st_unlinked @ [link_text],
                         clock := Suc (clock st_unlinked),
                         mtime := (mtime st_unlinked)(''cubic_roots.so'' \<mapsto> Suc (clock st_unlinked))\<rparr>)"
    by blast
  from B p nb(4) src(4) built
  have f5: "gnu_make 5 env_none all_ok program_rules st_built = (None, st_built)"
    by blast
  have g1: "gnu_make 5 env_none all_ok program_rules st_fresh =
     (None, \<lparr>mtime = [''cubic_roots.c'' \<mapsto> 1, ''cubic_roots.o'' \<mapsto> 6, ''cubic_roots.so'' \<mapsto> 7],
             clock = 7,
             executed = [''gcc -c -Wall -Wextra -O3 -fPIC cubic_roots.c -o cubic_roots.o'',
                         ''gcc -shared -lm cubic_roots.o -o cubic_roots.so'']\<rparr>)"
    unfolding f1 by (simp add: st_fresh_def ct lt)
  have g2: "gnu_make 5 env_none all_ok program_rules st_touched =
     (None, \<lparr>mtime = [''cubic_roots.c'' \<mapsto> 10, ''cubic_roots.o'' \<mapsto> 11, ''cubic_roots.so'' \<mapsto> 12],
             clock = 12,
             executed = [''gcc -c -Wall -Wextra -O3 -fPIC cubic_roots.c -o cubic_roots.o'',
                         ''gcc -shared -lm cubic_roots.o -o cubic_roots.so'']\<rparr>)"
    unfolding f2 by (simp add: st_touched_def ct lt)
  have g3: "gnu_make 5 env_none gcc_broken program_rules st_touched =
     (Some (Recipe_failed ''gcc -c -Wall -Wextra -O3 -fPIC cubic_roots.c -o cubic_roots.o''),
      \<lparr>mtime = [''cubic_roots.c'' \<mapsto> 10, ''cubic_roots.o'' \<mapsto> 6, ''cubic_roots.so'' \<mapsto> 7],
       clock = 11,
       executed = [''gcc -c -Wall -Wextra -O3 -fPIC cubic_roots.c -o cubic_roots.o'']\<rparr>)"
    unfolding f3 by (simp add: st_touched_def ct)
  have g4: "gnu_make 5 env_none all_ok program_rules st_unlinked =
     (None, \<lparr>mtime = [''cubic_roots.c'' \<mapsto> 1, ''cubic_roots.o'' \<mapsto> 6, ''cubic_roots.so'' \<mapsto> 7],
             clock = 7,
             executed = [''gcc -shared -lm cubic_roots.o -o cubic_roots.so'']\<rparr>)"
    unfolding f4 by (simp add: st_unlinked_def lt)
  have ex: "executed st_touched = []"
    by (simp add: st_touched_def)
  have f6: "compile_text env_none \<in>
       set (new_cmds st_touched (snd (gnu_make 5 env_none all_ok program_rules st_touched)))"
    and f7: "link_text \<in>
       set (new_cmds st_touched (snd (gnu_make 5 env_none all_ok program_rules st_touched)))"
    unfolding f2 by (simp_all add: new_cmds_def ex)
  from T p nb(2) src(2) f6 have f8: "stale (mtime st_touched) ''cubic_roots.o'' ''cubic_roots.c''"
    by blast
  from p nb(1) g1 f8 g2 f6 f7 g3 g4 f5 show ?thesis by blast
qed

section \<open>Properties of the notebook's make_control_volume\<close>







end
